theory Spec2Isabelle
  imports Main
begin

section \<open>JavaScript values\<close>

text \<open>
  The bodies of HTTP responses are parsed JSON and the code reads them dynamically
  (\<^verbatim>\<open>response.data.access\<close>, \<^verbatim>\<open>data.user_type || role\<close>), so they are modelled as
  JavaScript values. A number is an integer here: the code only ever tests a number for
  being zero.
\<close>

datatype jsval =
    JUndefined
  | JNull
  | JBool bool
  | JNum int
  | JStr string
  | JArr "jsval list"
  | JObj "(string \<times> jsval) list"

text \<open>Truthiness, as \<^verbatim>\<open>if (v)\<close> and \<^verbatim>\<open>a || b\<close> test it.\<close>

fun truthy :: "jsval \<Rightarrow> bool" where
  "truthy JUndefined = False"
| "truthy JNull = False"
| "truthy (JBool b) = b"
| "truthy (JNum n) = (n \<noteq> 0)"
| "truthy (JStr s) = (s \<noteq> [])"
| "truthy (JArr xs) = True"
| "truthy (JObj kvs) = True"

definition js_or :: "jsval \<Rightarrow> jsval \<Rightarrow> jsval" where
  "js_or a b = (if truthy a then a else b)"

text \<open>
  Reading a property \<^verbatim>\<open>v.k\<close> of a value that is neither \<^verbatim>\<open>undefined\<close> nor
  \<^verbatim>\<open>null\<close>: the field of an object, and \<^verbatim>\<open>undefined\<close> for a missing field and for
  the field names this program reads on a primitive or an array.
\<close>

fun get_field :: "jsval \<Rightarrow> string \<Rightarrow> jsval" where
  "get_field (JObj kvs) k = (case map_of kvs k of None \<Rightarrow> JUndefined | Some v \<Rightarrow> v)"
| "get_field v k = JUndefined"

text \<open>\<^verbatim>\<open>String.prototype.includes\<close>: the argument occurs as a contiguous substring.\<close>

fun startsWith :: "string \<Rightarrow> string \<Rightarrow> bool" where
  "startsWith s [] = True"
| "startsWith [] (c # cs) = False"
| "startsWith (x # xs) (c # cs) = (x = c \<and> startsWith xs cs)"

fun js_includes :: "string \<Rightarrow> string \<Rightarrow> bool" where
  "js_includes [] sub = (sub = [])"
| "js_includes (x # xs) sub = (startsWith (x # xs) sub \<or> js_includes xs sub)"

section \<open>Requests, responses and errors\<close>

datatype http_method = GET | POST | PATCH | DELETE

text \<open>
  An axios request config, reduced to what the interceptors and the services read or
  write: the method, \<^verbatim>\<open>url\<close>, \<^verbatim>\<open>headers.Authorization\<close>, the body \<^verbatim>\<open>data\<close> and the
  \<^verbatim>\<open>_retry\<close> mark the response interceptor puts on a config.
\<close>

record config =
  c_method :: http_method
  c_url :: string
  c_Authorization :: "string option"
  c_data :: jsval
  c_retry :: bool

record response =
  r_status :: nat
  r_data :: jsval

text \<open>
  What a promise of this program is rejected with. An \<open>AxiosError\<close> carries
  \<^verbatim>\<open>error.config\<close> and \<^verbatim>\<open>error.response\<close>; without a response (network failure,
  timeout) \<^verbatim>\<open>error.request\<close> is set instead. \<open>TypeError\<close> is the property read on
  \<^verbatim>\<open>undefined\<close> or \<^verbatim>\<open>null\<close>; \<open>StoreError\<close> is what a store call throws: the secure store
  for a value that is not a string, and either store when the call itself fails.
\<close>

datatype error =
    AxiosError config "response option"
  | TypeError
  | StoreError

text \<open>\<^verbatim>\<open>v.k\<close> for any value: a \<open>TypeError\<close> on \<^verbatim>\<open>undefined\<close> and \<^verbatim>\<open>null\<close>.\<close>

definition get_prop :: "jsval \<Rightarrow> string \<Rightarrow> error + jsval" where
  "get_prop v k = (if v = JUndefined \<or> v = JNull then Inl TypeError else Inr (get_field v k))"

section \<open>The world: the two stores, the network, the router\<close>

text \<open>
  What goes over the network: the instance's \<^verbatim>\<open>baseURL\<close> (empty for the bare
  \<^verbatim>\<open>axios\<close>), and the config's method, url, Authorization header and body.
\<close>

record wire =
  w_baseURL :: string
  w_method :: http_method
  w_url :: string
  w_Authorization :: "string option"
  w_data :: jsval

datatype reply = Response response | NoResponse

text \<open>
  The backend is any function from the requests sent so far and the request being sent
  to a reply: it may answer the same request differently each time.
\<close>

type_synonym backend = "wire list \<Rightarrow> wire \<Rightarrow> reply"

text \<open>
  \<open>SecureStore\<close> and \<open>AsyncStorage\<close> are the two key-value stores, \<open>wire_log\<close> the
  requests sent (oldest first), \<open>router\<close> the destinations given to
  \<^verbatim>\<open>router.replace\<close> (oldest first).
\<close>

record world =
  SecureStore :: "string \<rightharpoonup> string"
  AsyncStorage :: "string \<rightharpoonup> string"
  wire_log :: "wire list"
  router :: "string list"

definition API_BASE_URL :: string where
  "API_BASE_URL = ''http://10.66.85.52:8001/api/v1''"

definition wire_of :: "string \<Rightarrow> config \<Rightarrow> wire" where
  "wire_of base config =
     \<lparr>w_baseURL = base, w_method = c_method config, w_url = c_url config,
      w_Authorization = c_Authorization config, w_data = c_data config\<rparr>"

text \<open>
  axios settles a request: a reply with a status from 200 to 299 resolves, any other
  status rejects with the response, no reply rejects without one.
\<close>

definition settle :: "config \<Rightarrow> reply \<Rightarrow> error + response" where
  "settle config rep =
     (case rep of
        NoResponse \<Rightarrow> Inl (AxiosError config None)
      | Response r \<Rightarrow>
          if 200 \<le> r_status r \<and> r_status r < 300 then Inr r
          else Inl (AxiosError config (Some r)))"

text \<open>Sending a config through an instance with the given \<^verbatim>\<open>baseURL\<close>, no interceptor.\<close>

definition transmit :: "backend \<Rightarrow> string \<Rightarrow> config \<Rightarrow> world \<Rightarrow> (error + response) \<times> world" where
  "transmit be base config st =
     (settle config (be (wire_log st) (wire_of base config)),
      st\<lparr>wire_log := wire_log st @ [wire_of base config]\<rparr>)"

text \<open>
  \<^verbatim>\<open>SecureStore.setItemAsync(key, value)\<close>: the secure store takes strings only and
  throws for any other value.
\<close>

definition setItemAsync :: "string \<Rightarrow> jsval \<Rightarrow> world \<Rightarrow> error + world" where
  "setItemAsync key v st =
     (case v of
        JStr s \<Rightarrow> Inr (st\<lparr>SecureStore := (SecureStore st)(key \<mapsto> s)\<rparr>)
      | _ \<Rightarrow> Inl StoreError)"

definition deleteItemAsync :: "string \<Rightarrow> world \<Rightarrow> world" where
  "deleteItemAsync key st = st\<lparr>SecureStore := (SecureStore st)(key := None)\<rparr>"

section \<open>services/api.ts: the interceptors\<close>

text \<open>The request interceptor of \<^verbatim>\<open>api\<close> (api.ts, lines 18 to 30).\<close>

definition request_interceptor :: "world \<Rightarrow> config \<Rightarrow> config" where
  "request_interceptor st config =
     (if js_includes (c_url config) ''/auth/'' then config
      else
        (case SecureStore st ''access_token'' of
           None \<Rightarrow> config
         | Some token \<Rightarrow>
             if token \<noteq> [] then config\<lparr>c_Authorization := Some (''Bearer '' @ token)\<rparr>
             else config))"

text \<open>
  The body handed to \<^verbatim>\<open>axios.post\<close> by the response interceptor (lines 49 to 51), as
  a config of the bare \<^verbatim>\<open>axios\<close>.
\<close>

definition refresh_config :: "string \<Rightarrow> config" where
  "refresh_config refreshToken =
     \<lparr>c_method = POST, c_url = API_BASE_URL @ ''/auth/token/refresh/'',
      c_Authorization = None, c_data = JObj [(''refresh'', JStr refreshToken)],
      c_retry = False\<rparr>"

text \<open>
  The \<^verbatim>\<open>try\<close> block of the response interceptor (lines 46 to 64). It returns
  \<open>Inr (Some config)\<close> when it reaches \<^verbatim>\<open>return api(originalRequest)\<close>, with the config
  to send again; \<open>Inr None\<close> when no refresh token is stored and the block is left at
  its end; \<open>Inl e\<close> when something in it throws, with the world as it is then.
  \<^verbatim>\<open>setItemAsync\<close> has thrown unless \<^verbatim>\<open>access\<close> is a string, so the template
  \<^verbatim>\<open>`Bearer ${access}`\<close> is only ever built from a string.
\<close>

definition refresh_block :: "backend \<Rightarrow> config \<Rightarrow> world \<Rightarrow> (error + config option) \<times> world" where
  "refresh_block be originalRequest st =
     (case SecureStore st ''refresh_token'' of
        None \<Rightarrow> (Inr None, st)
      | Some refreshToken \<Rightarrow>
          if refreshToken = [] then (Inr None, st)
          else
            (case transmit be [] (refresh_config refreshToken) st of
               (Inl e, st1) \<Rightarrow> (Inl e, st1)
             | (Inr response, st1) \<Rightarrow>
                 (case get_prop (r_data response) ''access'' of
                    Inl e \<Rightarrow> (Inl e, st1)
                  | Inr access \<Rightarrow>
                      (case setItemAsync ''access_token'' access st1 of
                         Inl e \<Rightarrow> (Inl e, st1)
                       | Inr st2 \<Rightarrow>
                           (case (if truthy (get_field (r_data response) ''refresh'')
                                  then setItemAsync ''refresh_token''
                                         (get_field (r_data response) ''refresh'') st2
                                  else Inr st2) of
                              Inl e \<Rightarrow> (Inl e, st2)
                            | Inr st3 \<Rightarrow>
                                (case access of
                                   JStr a \<Rightarrow>
                                     (Inr (Some (originalRequest
                                        \<lparr>c_Authorization := Some (''Bearer '' @ a)\<rparr>)), st3)
                                 | _ \<Rightarrow> (Inl StoreError, st3)))))))"

text \<open>
  What the rejection handler of the response interceptor (lines 39 to 75) decides:
  to send a config again through \<^verbatim>\<open>api\<close>, or to reject with the error.
\<close>

datatype decision = Retry config | Reject error

definition is_401 :: "response option \<Rightarrow> bool" where
  "is_401 r = (case r of None \<Rightarrow> False | Some resp \<Rightarrow> r_status resp = 401)"

text \<open>
  \<^verbatim>\<open>originalRequest\<close> is \<^verbatim>\<open>error.config\<close> itself, so setting \<^verbatim>\<open>_retry\<close> on it marks
  the config inside the error that is rejected afterwards.
\<close>

definition response_rejected :: "backend \<Rightarrow> error \<Rightarrow> world \<Rightarrow> decision \<times> world" where
  "response_rejected be err st =
     (case err of
        AxiosError originalRequest resp \<Rightarrow>
          if is_401 resp \<and> \<not> c_retry originalRequest
             \<and> \<not> js_includes (c_url originalRequest) ''/auth/token/''
          then
            (case refresh_block be (originalRequest\<lparr>c_retry := True\<rparr>) st of
               (Inr (Some again), st1) \<Rightarrow> (Retry again, st1)
             | (Inr None, st1) \<Rightarrow>
                 (Reject (AxiosError (originalRequest\<lparr>c_retry := True\<rparr>) resp), st1)
             | (Inl e, st1) \<Rightarrow>
                 (Reject (AxiosError (originalRequest\<lparr>c_retry := True\<rparr>) resp),
                  deleteItemAsync ''refresh_token'' (deleteItemAsync ''access_token'' st1)))
          else (Reject err, st)
      | _ \<Rightarrow> (Reject err, st))"

text \<open>
  A request through the \<^verbatim>\<open>api\<close> instance: the request interceptor, the network, and
  on a rejection the response interceptor, which may call \<^verbatim>\<open>api\<close> again. The config
  sent again is the marked one: it keeps \<^verbatim>\<open>_retry\<close> and the header just set, and passes
  the request interceptor once more. A rejection of that second call is not caught by
  the \<^verbatim>\<open>try\<close> block, which returns the promise without awaiting it.
\<close>

function api_request :: "backend \<Rightarrow> world \<Rightarrow> config \<Rightarrow> (error + response) \<times> world" where
  "api_request be st config =
     (case transmit be API_BASE_URL (request_interceptor st config) st of
        (Inr response, st1) \<Rightarrow> (Inr response, st1)
      | (Inl err, st1) \<Rightarrow>
          (case response_rejected be err st1 of
             (Retry again, st2) \<Rightarrow> api_request be st2 again
           | (Reject e, st2) \<Rightarrow> (Inl e, st2)))"
  by pat_completeness auto
termination
proof (relation "measure (\<lambda>(be, st, config). if c_retry config then 0 else 1)")
  show "wf (measure (\<lambda>(be, st, config). if c_retry config then 0 else 1))"
    by simp
next
  fix be :: backend and st :: world and config x y x1 st1 xa ya again
  assume t: "(x, y) = transmit be API_BASE_URL (request_interceptor st config) st"
    and x: "x = Inl x1"
    and r: "(xa, ya) = response_rejected be x1 y"
    and a: "xa = Retry again"
  from t x have x1: "x1 = AxiosError (request_interceptor st config) None
      \<or> (\<exists>r. x1 = AxiosError (request_interceptor st config) (Some r))"
    by (auto simp: transmit_def settle_def split: reply.splits if_splits)
  have keep: "c_retry (request_interceptor st config) = c_retry config"
    by (simp add: request_interceptor_def split: option.splits)
  from r a x1 keep have "\<not> c_retry config \<and> c_retry again"
    by (auto simp: response_rejected_def refresh_block_def setItemAsync_def get_prop_def
        transmit_def is_401_def
        split: if_splits option.splits sum.splits prod.splits jsval.splits)
  then show "((be, ya, again), (be, st, config))
      \<in> measure (\<lambda>(be, st, config). if c_retry config then 0 else 1)"
    by simp
qed

declare api_request.simps [simp del]

section \<open>hooks/useAuth.ts: the session\<close>

text \<open>
  The user record that \<^verbatim>\<open>login\<close> builds. \<^verbatim>\<open>lastName\<close> and \<^verbatim>\<open>phone\<close> are keys of
  the object built from the profile only, so they are optional here.
\<close>

record user =
  u_id :: jsval
  u_email :: jsval
  u_role :: string
  u_firstName :: jsval
  u_isActive :: bool
  u_lastName :: "jsval option"
  u_phone :: "jsval option"
  u_user_type :: jsval

text \<open>The object literal of a user, with its keys in the order of the source.\<close>

definition user_object :: "user \<Rightarrow> jsval" where
  "user_object u =
     JObj ([(''id'', u_id u), (''email'', u_email u), (''role'', JStr (u_role u)),
            (''firstName'', u_firstName u), (''isActive'', JBool (u_isActive u))]
           @ (case u_lastName u of None \<Rightarrow> [] | Some v \<Rightarrow> [(''lastName'', v)])
           @ (case u_phone u of None \<Rightarrow> [] | Some v \<Rightarrow> [(''phone'', v)])
           @ [(''user_type'', u_user_type u)])"

abbreviation ACCESS_TOKEN_KEY :: string where "ACCESS_TOKEN_KEY \<equiv> ''access_token''"
abbreviation REFRESH_TOKEN_KEY :: string where "REFRESH_TOKEN_KEY \<equiv> ''refresh_token''"
abbreviation USER_SESSION :: string where "USER_SESSION \<equiv> ''current_user''"
abbreviation ROLE_KEY :: string where "ROLE_KEY \<equiv> ''userRole''"
abbreviation AUTH_KEY :: string where "AUTH_KEY \<equiv> ''isLoggedIn''"

definition AsyncStorage_setItem :: "string \<Rightarrow> string \<Rightarrow> world \<Rightarrow> world" where
  "AsyncStorage_setItem key v st = st\<lparr>AsyncStorage := (AsyncStorage st)(key \<mapsto> v)\<rparr>"

fun AsyncStorage_multiRemove :: "string list \<Rightarrow> world \<Rightarrow> world" where
  "AsyncStorage_multiRemove [] st = st"
| "AsyncStorage_multiRemove (key # keys) st =
     AsyncStorage_multiRemove keys (st\<lparr>AsyncStorage := (AsyncStorage st)(key := None)\<rparr>)"

text \<open>
  \<^verbatim>\<open>setAuthTokens\<close> (lines 43 to 46). The result is the error thrown, if any, and
  the world as it is then.
\<close>

definition setAuthTokens :: "jsval \<times> jsval \<Rightarrow> world \<Rightarrow> error option \<times> world" where
  "setAuthTokens tokens st =
     (case setItemAsync ACCESS_TOKEN_KEY (fst tokens) st of
        Inl e \<Rightarrow> (Some e, st)
      | Inr st1 \<Rightarrow>
          (case setItemAsync REFRESH_TOKEN_KEY (snd tokens) st1 of
             Inl e \<Rightarrow> (Some e, st1)
           | Inr st2 \<Rightarrow> (None, st2)))"

text \<open>
  \<^verbatim>\<open>setUserSession\<close> (lines 55 to 63). \<^verbatim>\<open>JSON.stringify\<close> is a parameter of the
  model: any function from values to strings.
\<close>

definition setUserSession ::
  "(jsval \<Rightarrow> string) \<Rightarrow> user \<Rightarrow> (jsval \<times> jsval) option \<Rightarrow> world \<Rightarrow> error option \<times> world" where
  "setUserSession stringify u tokens st =
     (case (case tokens of None \<Rightarrow> (None, st) | Some t \<Rightarrow> setAuthTokens t st) of
        (Some e, st1) \<Rightarrow> (Some e, st1)
      | (None, st1) \<Rightarrow>
          (case setItemAsync USER_SESSION (JStr (stringify (user_object u))) st1 of
             Inl e \<Rightarrow> (Some e, st1)
           | Inr st2 \<Rightarrow>
               (None,
                AsyncStorage_setItem AUTH_KEY ''true''
                  (AsyncStorage_setItem ROLE_KEY (u_role u)
                    (AsyncStorage_setItem USER_SESSION (stringify (user_object u)) st2)))))"

text \<open>
  \<^verbatim>\<open>authService.logout()\<close> sends nothing, so it fails only when one of its store calls
  does, and \<^verbatim>\<open>logout\<close> is written to go on after such a failure. The store calls of
  \<^verbatim>\<open>logout\<close> are therefore modelled with their failure; everywhere else the store
  calls are taken to go through. Which call fails is decided by the device: any function
  from the store calls that \<^verbatim>\<open>logout\<close> has made so far and the call being made to
  whether it rejects, so a failure may pass or stay. A call that rejects throws
  \<open>StoreError\<close> and leaves the store as it was.
\<close>

datatype store_call = Delete string | MultiRemove "string list"

type_synonym faults = "store_call list \<Rightarrow> store_call \<Rightarrow> bool"

text \<open>\<^verbatim>\<open>await SecureStore.deleteItemAsync(key)\<close>, with the calls made so far.\<close>

definition deleteItemAsync_faulty ::
  "faults \<Rightarrow> string \<Rightarrow> store_call list \<times> world
     \<Rightarrow> (error + unit) \<times> store_call list \<times> world" where
  "deleteItemAsync_faulty fl key s =
     (case s of
        (calls, st) \<Rightarrow>
          if fl calls (Delete key) then (Inl StoreError, calls @ [Delete key], st)
          else (Inr (), calls @ [Delete key], deleteItemAsync key st))"

text \<open>\<^verbatim>\<open>await AsyncStorage.multiRemove(keys)\<close>, with the calls made so far.\<close>

definition multiRemove_faulty ::
  "faults \<Rightarrow> string list \<Rightarrow> store_call list \<times> world
     \<Rightarrow> (error + unit) \<times> store_call list \<times> world" where
  "multiRemove_faulty fl keys s =
     (case s of
        (calls, st) \<Rightarrow>
          if fl calls (MultiRemove keys) then (Inl StoreError, calls @ [MultiRemove keys], st)
          else (Inr (), calls @ [MultiRemove keys], AsyncStorage_multiRemove keys st))"

text \<open>
  \<^verbatim>\<open>clearAuthTokens\<close> (lines 48 to 52): three awaited deletions; the first that
  rejects ends it.
\<close>

definition clearAuthTokens ::
  "faults \<Rightarrow> store_call list \<times> world \<Rightarrow> (error + unit) \<times> store_call list \<times> world" where
  "clearAuthTokens fl s =
     (case deleteItemAsync_faulty fl ACCESS_TOKEN_KEY s of
        (Inl e, s1) \<Rightarrow> (Inl e, s1)
      | (Inr u, s1) \<Rightarrow>
          (case deleteItemAsync_faulty fl REFRESH_TOKEN_KEY s1 of
             (Inl e, s2) \<Rightarrow> (Inl e, s2)
           | (Inr u, s2) \<Rightarrow> deleteItemAsync_faulty fl USER_SESSION s2))"

text \<open>
  \<^verbatim>\<open>authService.logout\<close> (api.ts, lines 94 to 101): it sends nothing; its \<^verbatim>\<open>finally\<close>
  block awaits the deletion of the two tokens, and the promise is rejected when one of
  the two deletions is.
\<close>

definition authService_logout ::
  "faults \<Rightarrow> store_call list \<times> world \<Rightarrow> (error + unit) \<times> store_call list \<times> world" where
  "authService_logout fl s =
     (case deleteItemAsync_faulty fl ''access_token'' s of
        (Inl e, s1) \<Rightarrow> (Inl e, s1)
      | (Inr u, s1) \<Rightarrow> deleteItemAsync_faulty fl ''refresh_token'' s1)"

text \<open>
  The \<^verbatim>\<open>finally\<close> block of \<^verbatim>\<open>logout\<close> (lines 96 to 98). A call that rejects leaves
  the block there: what comes after it does not run, and \<^verbatim>\<open>logout\<close> is rejected with
  that error.
\<close>

definition logout_finally :: "faults \<Rightarrow> store_call list \<times> world \<Rightarrow> (error + unit) \<times> world" where
  "logout_finally fl s =
     (case clearAuthTokens fl s of
        (Inl e, s1) \<Rightarrow> (Inl e, snd s1)
      | (Inr u, s1) \<Rightarrow>
          (case multiRemove_faulty fl [ROLE_KEY, AUTH_KEY, USER_SESSION] s1 of
             (Inl e, s2) \<Rightarrow> (Inl e, snd s2)
           | (Inr u, s2) \<Rightarrow>
               (Inr (), (snd s2)\<lparr>router := router (snd s2) @ [''/login'']\<rparr>)))"

text \<open>
  \<^verbatim>\<open>logout\<close> (lines 92 to 100). \<open>logout_after\<close> is what follows the call of
  \<^verbatim>\<open>authService.logout()\<close>, given its outcome: \<^verbatim>\<open>.catch(() => {})\<close> drops a rejection
  and the \<^verbatim>\<open>finally\<close> block runs in both cases.
\<close>

definition logout_after ::
  "faults \<Rightarrow> (error + unit) \<times> store_call list \<times> world \<Rightarrow> (error + unit) \<times> world" where
  "logout_after fl outcome =
     (case outcome of
        (Inl e, s1) \<Rightarrow> logout_finally fl s1
      | (Inr u, s1) \<Rightarrow> logout_finally fl s1)"

definition logout :: "faults \<Rightarrow> world \<Rightarrow> (error + unit) \<times> world" where
  "logout fl st = logout_after fl (authService_logout fl ([], st))"

text \<open>
  \<^verbatim>\<open>api.post(url, data)\<close> and \<^verbatim>\<open>api.get(url)\<close> start from a config without an
  Authorization header and without the \<^verbatim>\<open>_retry\<close> mark.
\<close>

definition post_config :: "string \<Rightarrow> jsval \<Rightarrow> config" where
  "post_config u d =
     \<lparr>c_method = POST, c_url = u, c_Authorization = None, c_data = d, c_retry = False\<rparr>"

definition get_config :: "string \<Rightarrow> config" where
  "get_config u =
     \<lparr>c_method = GET, c_url = u, c_Authorization = None, c_data = JUndefined, c_retry = False\<rparr>"

text \<open>\<^verbatim>\<open>authService.login\<close> (api.ts, lines 80 to 87): it returns \<^verbatim>\<open>response.data\<close>.\<close>

definition login_config :: "string \<Rightarrow> string \<Rightarrow> string \<Rightarrow> config" where
  "login_config email password role =
     post_config ''/auth/token/''
       (JObj [(''email'', JStr email), (''password'', JStr password), (''role'', JStr role)])"

definition authService_login ::
  "backend \<Rightarrow> world \<Rightarrow> string \<Rightarrow> string \<Rightarrow> string \<Rightarrow> (error + jsval) \<times> world" where
  "authService_login be st email password role =
     (case api_request be st (login_config email password role) of
        (Inl e, st1) \<Rightarrow> (Inl e, st1)
      | (Inr response, st1) \<Rightarrow> (Inr (r_data response), st1))"

record login_result =
  success :: bool
  message :: jsval
  user :: "user option"

text \<open>The \<^verbatim>\<open>catch\<close> block of \<^verbatim>\<open>login\<close> (lines 176 to 197).\<close>

definition login_message :: "(jsval \<Rightarrow> string) \<Rightarrow> error \<Rightarrow> jsval" where
  "login_message stringify err =
     (case err of
        AxiosError config (Some resp) \<Rightarrow>
          if truthy (r_data resp)
          then js_or (js_or (get_field (r_data resp) ''detail'')
                            (get_field (r_data resp) ''error''))
                     (JStr (stringify (r_data resp)))
          else JStr ''Login failed. Please try again.''
      | AxiosError config None \<Rightarrow>
          JStr ''No response from server. Please check your connection.''
      | _ \<Rightarrow> JStr ''Login failed. Please try again.'')"

definition login_failed :: "(jsval \<Rightarrow> string) \<Rightarrow> error \<Rightarrow> login_result" where
  "login_failed stringify err =
     \<lparr>success = False, message = login_message stringify err, user = None\<rparr>"

text \<open>\<^verbatim>\<open>email.split('@')[0]\<close>: the part of the string before its first \<^verbatim>\<open>@\<close>.\<close>

definition split_at_0 :: "string \<Rightarrow> string" where
  "split_at_0 email = takeWhile (\<lambda>c. c \<noteq> CHR ''@'') email"

text \<open>
  The user built from the profile (lines 128 to 143), given \<^verbatim>\<open>profileResponse.data\<close>;
  reading \<^verbatim>\<open>user_type\<close> of an \<^verbatim>\<open>undefined\<close> or \<^verbatim>\<open>null\<close> body throws.
\<close>

definition profile_userData :: "jsval \<Rightarrow> string \<Rightarrow> string \<Rightarrow> error + user" where
  "profile_userData pdata email role =
     (case get_prop pdata ''user_type'' of
        Inl e \<Rightarrow> Inl e
      | Inr user_type \<Rightarrow>
          (let backendRole = js_or user_type (JStr role);
               userRole =
                 (case backendRole of
                    JStr s \<Rightarrow> if s = ''client'' \<or> s = ''designer'' then s else ''client''
                  | _ \<Rightarrow> ''client'')
           in Inr \<lparr>u_id = js_or (get_field pdata ''id'') (JStr ''temp-id''),
                   u_email = js_or (get_field pdata ''email'') (JStr email),
                   u_role = userRole,
                   u_firstName = js_or (get_field pdata ''first_name'') (JStr (split_at_0 email)),
                   u_isActive = True,
                   u_lastName = Some (js_or (get_field pdata ''last_name'') (JStr [])),
                   u_phone = Some (js_or (get_field pdata ''phone'') (JStr [])),
                   u_user_type = backendRole\<rparr>))"

text \<open>The user of the inner \<^verbatim>\<open>catch\<close> block (lines 150 to 157).\<close>

definition fallback_userData :: "string \<Rightarrow> string \<Rightarrow> user" where
  "fallback_userData email role =
     \<lparr>u_id = JStr ''temp-id'', u_email = JStr email, u_role = role,
      u_firstName = JStr (split_at_0 email), u_isActive = True,
      u_lastName = None, u_phone = None, u_user_type = JStr role\<rparr>"

text \<open>The inner \<^verbatim>\<open>try\<close> and \<^verbatim>\<open>catch\<close> of \<^verbatim>\<open>login\<close> (lines 123 to 160).\<close>

definition fetch_userData :: "backend \<Rightarrow> world \<Rightarrow> string \<Rightarrow> string \<Rightarrow> user \<times> world" where
  "fetch_userData be st email role =
     (case api_request be st (get_config ''/auth/profile/'') of
        (Inl e, st1) \<Rightarrow> (fallback_userData email role, st1)
      | (Inr profileResponse, st1) \<Rightarrow>
          (case profile_userData (r_data profileResponse) email role of
             Inl e \<Rightarrow> (fallback_userData email role, st1)
           | Inr userData \<Rightarrow> (userData, st1)))"

text \<open>\<^verbatim>\<open>login\<close> (lines 113 to 198).\<close>

definition login ::
  "backend \<Rightarrow> (jsval \<Rightarrow> string) \<Rightarrow> world \<Rightarrow> string \<Rightarrow> string \<Rightarrow> string
     \<Rightarrow> login_result \<times> world" where
  "login be stringify st email password role =
     (case authService_login be st email password role of
        (Inl err, st1) \<Rightarrow> (login_failed stringify err, st1)
      | (Inr response, st1) \<Rightarrow>
          (case get_prop response ''access'' of
             Inl err \<Rightarrow> (login_failed stringify err, st1)
           | Inr access \<Rightarrow>
               (case setItemAsync ''access_token'' access st1 of
                  Inl err \<Rightarrow> (login_failed stringify err, st1)
                | Inr st2 \<Rightarrow>
                    (case setItemAsync ''refresh_token'' (get_field response ''refresh'') st2 of
                       Inl err \<Rightarrow> (login_failed stringify err, st2)
                     | Inr st3 \<Rightarrow>
                         (case fetch_userData be st3 email role of
                            (userData, st4) \<Rightarrow>
                              (case setUserSession stringify userData
                                      (Some (access, get_field response ''refresh'')) st4 of
                                 (Some err, st5) \<Rightarrow> (login_failed stringify err, st5)
                               | (None, st5) \<Rightarrow>
                                   (\<lparr>success = True, message = JStr ''Login successful'',
                                     user = Some userData\<rparr>,
                                    st5\<lparr>router := router st5 @
                                      [if u_role userData = ''designer''
                                       then ''/(designer-tabs)/dashboard''
                                       else ''/(tabs)/home'']\<rparr>)))))))"

section \<open>Observations\<close>

text \<open>
  The requests that one call of \<^verbatim>\<open>api\<close> puts on the network, in the order they are
  sent.
\<close>

definition sent :: "backend \<Rightarrow> world \<Rightarrow> config \<Rightarrow> wire list" where
  "sent be st config = drop (length (wire_log st)) (wire_log (snd (api_request be st config)))"

text \<open>A POST to the refresh endpoint, whichever instance sends it.\<close>

definition is_refresh_call :: "wire \<Rightarrow> bool" where
  "is_refresh_call w =
     (w_method w = POST \<and> w_baseURL w @ w_url w = API_BASE_URL @ ''/auth/token/refresh/'')"

text \<open>
  The world in which \<^verbatim>\<open>login\<close> fetches the profile: the one \<^verbatim>\<open>authService.login\<close>
  left, with the two tokens written by lines 118 and 119.
\<close>

definition tokens_stored :: "world \<Rightarrow> string \<Rightarrow> string \<Rightarrow> world" where
  "tokens_stored st1 a r =
     st1\<lparr>SecureStore := (SecureStore st1)(''access_token'' \<mapsto> a, ''refresh_token'' \<mapsto> r)\<rparr>"

text \<open>
  The store calls of the \<^verbatim>\<open>finally\<close> block of \<^verbatim>\<open>logout\<close> all go through, when
  \<open>calls\<close> are the store calls made before it.
\<close>

definition cleanup_succeeds :: "faults \<Rightarrow> store_call list \<Rightarrow> bool" where
  "cleanup_succeeds fl calls =
     (\<not> fl calls (Delete ACCESS_TOKEN_KEY)
      \<and> \<not> fl (calls @ [Delete ACCESS_TOKEN_KEY]) (Delete REFRESH_TOKEN_KEY)
      \<and> \<not> fl (calls @ [Delete ACCESS_TOKEN_KEY, Delete REFRESH_TOKEN_KEY]) (Delete USER_SESSION)
      \<and> \<not> fl (calls @ [Delete ACCESS_TOKEN_KEY, Delete REFRESH_TOKEN_KEY, Delete USER_SESSION])
             (MultiRemove [ROLE_KEY, AUTH_KEY, USER_SESSION]))"

section \<open>A concrete backend and a concrete device\<close>

text \<open>
  A backend to run the code against. The token endpoint accepts the password
  \<^verbatim>\<open>pw\<close> and issues the tokens \<^verbatim>\<open>A1\<close> and \<^verbatim>\<open>R1\<close>; the refresh endpoint accepts the
  refresh token \<open>validRefresh\<close> and issues the tokens \<^verbatim>\<open>A2\<close> and \<^verbatim>\<open>R2\<close>; every other
  request is answered with \<open>body\<close> when it carries the bearer token \<open>accepted\<close>,
  and with 401 otherwise.
\<close>

definition demo_backend :: "string \<Rightarrow> string \<Rightarrow> jsval \<Rightarrow> backend" where
  "demo_backend validRefresh accepted body log w =
     (if w_url w = ''/auth/token/''
      then (if get_field (w_data w) ''password'' = JStr ''pw''
            then Response \<lparr>r_status = 200,
                   r_data = JObj [(''access'', JStr ''A1''), (''refresh'', JStr ''R1'')]\<rparr>
            else Response \<lparr>r_status = 401,
                   r_data = JObj [(''detail'', JStr ''No active account'')]\<rparr>)
      else if w_url w = API_BASE_URL @ ''/auth/token/refresh/''
      then (if w_data w = JObj [(''refresh'', JStr validRefresh)]
            then Response \<lparr>r_status = 200,
                   r_data = JObj [(''access'', JStr ''A2''), (''refresh'', JStr ''R2'')]\<rparr>
            else Response \<lparr>r_status = 401,
                   r_data = JObj [(''detail'', JStr ''Token is invalid'')]\<rparr>)
      else if w_Authorization w = Some (''Bearer '' @ accepted)
      then Response \<lparr>r_status = 200, r_data = body\<rparr>
      else Response \<lparr>r_status = 401,
             r_data = JObj [(''detail'', JStr ''Not authenticated'')]\<rparr>)"

text \<open>A device with a session on it, whose access token \<^verbatim>\<open>A1\<close> may have expired.\<close>

definition demo_world :: world where
  "demo_world =
     \<lparr>SecureStore = [''access_token'' \<mapsto> ''A1'', ''refresh_token'' \<mapsto> ''R1'',
                      ''current_user'' \<mapsto> ''{}''],
      AsyncStorage = [''current_user'' \<mapsto> ''{}'', ''userRole'' \<mapsto> ''client'',
                       ''isLoggedIn'' \<mapsto> ''true''],
      wire_log = [], router = []\<rparr>"

text \<open>A device nobody has logged in on.\<close>

definition fresh_world :: world where
  "fresh_world =
     \<lparr>SecureStore = Map.empty, AsyncStorage = Map.empty, wire_log = [], router = []\<rparr>"

text \<open>
  Three devices: one whose store never fails, one whose store fails the first call made
  to it and no other, and one whose secure store refuses to delete \<^verbatim>\<open>access_token\<close>
  every time.
\<close>

definition no_faults :: faults where
  "no_faults calls c = False"

definition first_call_fails :: faults where
  "first_call_fails calls c = (calls = [])"

definition access_delete_fails :: faults where
  "access_delete_fails calls c = (c = Delete ''access_token'')"

text \<open>
  A stand-in for \<^verbatim>\<open>JSON.stringify\<close> where a concrete one is needed: it prints the
  \<^verbatim>\<open>role\<close> field of an object only.
\<close>

definition demo_stringify :: "jsval \<Rightarrow> string" where
  "demo_stringify v = (case get_field v ''role'' of JStr s \<Rightarrow> ''{role:'' @ s @ ''}'' | _ \<Rightarrow> ''{}'')"

section \<open>Facts about the interceptors and about login\<close>

lemma interceptor_keeps:
  "c_retry (request_interceptor st config) = c_retry config"
  "c_url (request_interceptor st config) = c_url config"
  "c_method (request_interceptor st config) = c_method config"
  "c_data (request_interceptor st config) = c_data config"
  by (simp_all add: request_interceptor_def split: option.splits)

lemma transmit_error:
  "transmit be base config st = (Inl err, st1) \<Longrightarrow> \<exists>r. err = AxiosError config r"
  by (auto simp: transmit_def settle_def split: reply.splits if_splits)

lemma rejected_pass:
  "c_retry config \<or> js_includes (c_url config) ''/auth/token/'' \<or> \<not> is_401 r \<Longrightarrow>
   response_rejected be (AxiosError config r) st = (Reject (AxiosError config r), st)"
  by (auto simp: response_rejected_def)

lemma api_request_pass:
  assumes "c_retry config \<or> js_includes (c_url config) ''/auth/token/''"
  shows "api_request be st config = transmit be API_BASE_URL (request_interceptor st config) st"
proof (cases "transmit be API_BASE_URL (request_interceptor st config) st")
  case (Pair res st1)
  show ?thesis
  proof (cases res)
    case (Inl err)
    with Pair obtain r where e: "err = AxiosError (request_interceptor st config) r"
      using transmit_error by blast
    from assms have "response_rejected be err st1 = (Reject err, st1)"
      unfolding e by (intro rejected_pass) (auto simp: interceptor_keeps)
    with Pair Inl show ?thesis
      by (subst api_request.simps) simp
  next
    case (Inr resp)
    with Pair show ?thesis
      by (subst api_request.simps) simp
  qed
qed

lemma refresh_block_success:
  assumes tok: "SecureStore st ''refresh_token'' = Some rt" "rt \<noteq> []"
    and rep: "be (wire_log st) (wire_of [] (refresh_config rt)) = Response r2"
      "200 \<le> r_status r2" "r_status r2 < 300"
    and acc: "get_field (r_data r2) ''access'' = JStr a"
    and rf: "get_field (r_data r2) ''refresh'' = JStr nr \<or> \<not> truthy (get_field (r_data r2) ''refresh'')"
  shows "refresh_block be orig st =
     (Inr (Some (orig\<lparr>c_Authorization := Some (''Bearer '' @ a)\<rparr>)),
      st\<lparr>SecureStore := (SecureStore st)(''access_token'' \<mapsto> a,
            ''refresh_token'' \<mapsto> (if truthy (get_field (r_data r2) ''refresh'') then nr else rt)),
         wire_log := wire_log st @ [wire_of [] (refresh_config rt)]\<rparr>)"
proof -
  from acc have nn: "r_data r2 \<noteq> JUndefined" "r_data r2 \<noteq> JNull"
    by auto
  have t: "transmit be [] (refresh_config rt) st =
      (Inr r2, st\<lparr>wire_log := wire_log st @ [wire_of [] (refresh_config rt)]\<rparr>)"
    using rep by (simp add: transmit_def settle_def)
  show ?thesis
    using tok acc rf nn
    by (auto simp: refresh_block_def t get_prop_def setItemAsync_def fun_upd_twist map_upd_triv)
qed

lemma api_request_refresh_retry:
  fixes be :: backend
  assumes nr: "\<not> c_retry config" "\<not> js_includes (c_url config) ''/auth/token/''"
    and w1: "w1 = wire_of API_BASE_URL (request_interceptor st config)"
    and w2: "w2 = wire_of [] (refresh_config rt)"
    and first: "be (wire_log st) w1 = Response r1" "r_status r1 = 401"
    and tok: "SecureStore st ''refresh_token'' = Some rt" "rt \<noteq> []"
    and rep: "be (wire_log st @ [w1]) w2 = Response r2" "200 \<le> r_status r2" "r_status r2 < 300"
    and acc: "get_field (r_data r2) ''access'' = JStr a"
    and rf: "get_field (r_data r2) ''refresh'' = JStr nr \<or> \<not> truthy (get_field (r_data r2) ''refresh'')"
    and again: "again = (request_interceptor st config)
                  \<lparr>c_Authorization := Some (''Bearer '' @ a), c_retry := True\<rparr>"
  shows "api_request be st config =
     (settle again (be (wire_log st @ [w1, w2]) (wire_of API_BASE_URL again)),
      st\<lparr>SecureStore := (SecureStore st)(''access_token'' \<mapsto> a,
            ''refresh_token'' \<mapsto> (if truthy (get_field (r_data r2) ''refresh'') then nr else rt)),
         wire_log := wire_log st @ [w1, w2, wire_of API_BASE_URL again]\<rparr>)"
proof -
  let ?c1 = "request_interceptor st config"
  let ?st1 = "st\<lparr>wire_log := wire_log st @ [w1]\<rparr>"
  let ?st2 = "?st1\<lparr>SecureStore := (SecureStore ?st1)(''access_token'' \<mapsto> a,
            ''refresh_token'' \<mapsto> (if truthy (get_field (r_data r2) ''refresh'') then nr else rt)),
         wire_log := wire_log ?st1 @ [w2]\<rparr>"
  have t1: "transmit be API_BASE_URL ?c1 st = (Inl (AxiosError ?c1 (Some r1)), ?st1)"
    using first by (simp add: transmit_def settle_def w1)
  have rb: "refresh_block be (?c1\<lparr>c_retry := True\<rparr>) ?st1 =
      (Inr (Some (?c1\<lparr>c_retry := True, c_Authorization := Some (''Bearer '' @ a)\<rparr>)), ?st2)"
    unfolding w2 using tok rep acc rf
    by (intro refresh_block_success) (simp_all add: w2)
  have rr: "response_rejected be (AxiosError ?c1 (Some r1)) ?st1 = (Retry again, ?st2)"
    using nr first(2) by (simp add: response_rejected_def is_401_def interceptor_keeps rb again)
  have ia: "request_interceptor ?st2 again = again"
    unfolding again by (simp add: request_interceptor_def)
  have pass: "api_request be ?st2 again = transmit be API_BASE_URL again ?st2"
    using api_request_pass[of again be ?st2] ia by (simp add: again)
  have t3: "transmit be API_BASE_URL again ?st2 =
     (settle again (be (wire_log st @ [w1, w2]) (wire_of API_BASE_URL again)),
      st\<lparr>SecureStore := (SecureStore st)(''access_token'' \<mapsto> a,
            ''refresh_token'' \<mapsto> (if truthy (get_field (r_data r2) ''refresh'') then nr else rt)),
         wire_log := wire_log st @ [w1, w2, wire_of API_BASE_URL again]\<rparr>)"
    by (simp add: transmit_def)
  show ?thesis
    by (subst api_request.simps) (simp only: t1 rr pass t3 prod.case sum.case decision.case)
qed

lemma refresh_block_shape:
  assumes "refresh_block be orig st = (res, st')"
  shows "AsyncStorage st' = AsyncStorage st \<and> router st' = router st \<and>
     (\<forall>k. k \<noteq> ''access_token'' \<and> k \<noteq> ''refresh_token'' \<longrightarrow> SecureStore st' k = SecureStore st k) \<and>
     (res = Inr None \<and> st' = st \<or>
      (\<exists>rt. wire_log st' = wire_log st @ [wire_of [] (refresh_config rt)] \<and>
         ((\<exists>e. res = Inl e) \<or>
          (\<exists>a. res = Inr (Some (orig\<lparr>c_Authorization := Some (''Bearer '' @ a)\<rparr>))
               \<and> SecureStore st' ''access_token'' = Some a))))"
  using assms
  by (auto simp: refresh_block_def transmit_def setItemAsync_def get_prop_def
      split: option.splits if_splits sum.splits prod.splits jsval.splits)

lemma api_request_shape:
  fixes be :: backend
  defines "w1 \<equiv> \<lambda>st config. wire_of API_BASE_URL (request_interceptor st config)"
  shows "\<exists>ws. wire_log (snd (api_request be st config)) = wire_log st @ w1 st config # ws
      \<and> AsyncStorage (snd (api_request be st config)) = AsyncStorage st
      \<and> router (snd (api_request be st config)) = router st
      \<and> (\<forall>k. k \<noteq> ''access_token'' \<and> k \<noteq> ''refresh_token'' \<longrightarrow>
            SecureStore (snd (api_request be st config)) k = SecureStore st k)
      \<and> (ws = [] \<or>
         (\<not> c_retry config \<and> \<not> js_includes (c_url config) ''/auth/token/'' \<and>
          (\<exists>rt. ws = [wire_of [] (refresh_config rt)] \<or>
            (\<exists>a. ws = [wire_of [] (refresh_config rt),
                         (w1 st config)\<lparr>w_Authorization := Some (''Bearer '' @ a)\<rparr>]))))"
proof (cases "c_retry config \<or> js_includes (c_url config) ''/auth/token/''")
  case True
  then show ?thesis
    by (simp add: api_request_pass transmit_def w1_def)
next
  case False
  let ?c1 = "request_interceptor st config"
  let ?st1 = "st\<lparr>wire_log := wire_log st @ [w1 st config]\<rparr>"
  obtain res where t: "transmit be API_BASE_URL ?c1 st = (res, ?st1)"
    by (simp add: transmit_def w1_def)
  show ?thesis
  proof (cases res)
    case (Inr resp)
    with t have "api_request be st config = (Inr resp, ?st1)"
      by (subst api_request.simps) simp
    then show ?thesis by simp
  next
    case (Inl err)
    with t obtain r where err: "err = AxiosError ?c1 r"
      using transmit_error by blast
    show ?thesis
    proof (cases "is_401 r")
      case no: False
      then have "response_rejected be err ?st1 = (Reject err, ?st1)"
        by (simp add: err rejected_pass)
      with t Inl have "api_request be st config = (Inl err, ?st1)"
        by (subst api_request.simps) simp
      then show ?thesis by simp
    next
      case yes: True
      obtain rb st2 where rb: "refresh_block be (?c1\<lparr>c_retry := True\<rparr>) ?st1 = (rb, st2)"
        by (cases "refresh_block be (?c1\<lparr>c_retry := True\<rparr>) ?st1") auto
      note shape = refresh_block_shape[OF rb]
      from shape consider
          (none) "rb = Inr None" "st2 = ?st1"
        | (threw) rt e where "rb = Inl e"
            "wire_log st2 = wire_log ?st1 @ [wire_of [] (refresh_config rt)]"
        | (again) rt a where
            "rb = Inr (Some (?c1\<lparr>c_retry := True, c_Authorization := Some (''Bearer '' @ a)\<rparr>))"
            "SecureStore st2 ''access_token'' = Some a"
            "wire_log st2 = wire_log ?st1 @ [wire_of [] (refresh_config rt)]"
        by auto
      then show ?thesis
      proof cases
        case none
        with yes False rb have "response_rejected be err ?st1
            = (Reject (AxiosError (?c1\<lparr>c_retry := True\<rparr>) r), ?st1)"
          by (simp add: response_rejected_def err interceptor_keeps)
        with t Inl have "api_request be st config
            = (Inl (AxiosError (?c1\<lparr>c_retry := True\<rparr>) r), ?st1)"
          by (subst api_request.simps) simp
        then show ?thesis by simp
      next
        case threw
        let ?st3 = "deleteItemAsync ''refresh_token'' (deleteItemAsync ''access_token'' st2)"
        from threw yes False rb have "response_rejected be err ?st1
            = (Reject (AxiosError (?c1\<lparr>c_retry := True\<rparr>) r), ?st3)"
          by (simp add: response_rejected_def err interceptor_keeps)
        with t Inl have "api_request be st config
            = (Inl (AxiosError (?c1\<lparr>c_retry := True\<rparr>) r), ?st3)"
          by (subst api_request.simps) simp
        with threw shape False show ?thesis
          by (auto simp: deleteItemAsync_def)
      next
        case again
        let ?again = "?c1\<lparr>c_retry := True, c_Authorization := Some (''Bearer '' @ a)\<rparr>"
        from again yes False rb have "response_rejected be err ?st1 = (Retry ?again, st2)"
          by (simp add: response_rejected_def err interceptor_keeps)
        with t Inl have "api_request be st config = api_request be st2 ?again"
          by (subst api_request.simps) simp
        also have "\<dots> = transmit be API_BASE_URL (request_interceptor st2 ?again) st2"
          by (rule api_request_pass) simp
        also have "request_interceptor st2 ?again = ?again"
          using again(2) by (simp add: request_interceptor_def)
        finally have "api_request be st config = transmit be API_BASE_URL ?again st2" .
        with again shape False show ?thesis
          by (auto simp: transmit_def w1_def wire_of_def)
      qed
    qed
  qed
qed

lemma js_includes_iff: "js_includes s sub \<longleftrightarrow> (\<exists>p q. s = p @ sub @ q)"
proof -
  have sw: "startsWith s sub \<longleftrightarrow> (\<exists>q. s = sub @ q)" for s sub
    by (induction s sub rule: startsWith.induct) auto
  show ?thesis
  proof (induction s)
    case Nil
    then show ?case by auto
  next
    case (Cons x xs)
    show ?case
    proof
      assume "js_includes (x # xs) sub"
      then consider "startsWith (x # xs) sub" | "js_includes xs sub" by auto
      then show "\<exists>p q. x # xs = p @ sub @ q"
      proof cases
        case 1
        then obtain q where "x # xs = sub @ q" using sw by blast
        then have "x # xs = [] @ sub @ q" by simp
        then show ?thesis by blast
      next
        case 2
        with Cons obtain p q where "xs = p @ sub @ q" by blast
        then have "x # xs = (x # p) @ sub @ q" by simp
        then show ?thesis by blast
      qed
    next
      assume "\<exists>p q. x # xs = p @ sub @ q"
      then obtain p q where pq: "x # xs = p @ sub @ q" by blast
      show "js_includes (x # xs) sub"
      proof (cases p)
        case Nil
        with pq have "startsWith (x # xs) sub" using sw by auto
        then show ?thesis by simp
      next
        case (Cons y ys)
        with pq have "xs = ys @ sub @ q" by simp
        with Cons.IH have "js_includes xs sub" by blast
        then show ?thesis by simp
      qed
    qed
  qed
qed

lemma auth_token_in_auth:
  "js_includes u ''/auth/token/'' \<Longrightarrow> js_includes u ''/auth/''"
proof -
  assume "js_includes u ''/auth/token/''"
  then obtain p q where "u = p @ ''/auth/token/'' @ q"
    unfolding js_includes_iff by blast
  then have "u = p @ ''/auth/'' @ (''token/'' @ q)" by simp
  then show ?thesis unfolding js_includes_iff by blast
qed

lemma not_refresh_call:
  assumes "\<not> js_includes (c_url config) ''/auth/token/''"
  shows "\<not> is_refresh_call (wire_of API_BASE_URL config)"
proof
  assume "is_refresh_call (wire_of API_BASE_URL config)"
  then have "API_BASE_URL @ c_url config = API_BASE_URL @ ''/auth/token/refresh/''"
    unfolding is_refresh_call_def wire_of_def by (simp only: wire.simps)
  then have "c_url config = ''/auth/token/refresh/''"
    by (simp only: same_append_eq)
  then have "c_url config = [] @ ''/auth/token/'' @ ''refresh/''" by simp
  then have "js_includes (c_url config) ''/auth/token/''"
    unfolding js_includes_iff by blast
  with assms show False by simp
qed

lemma refresh_is_refresh_call: "is_refresh_call (wire_of [] (refresh_config rt))"
  by (simp add: is_refresh_call_def wire_of_def refresh_config_def)

lemma sent_shape:
  fixes be :: backend
  defines "w1 \<equiv> \<lambda>st config. wire_of API_BASE_URL (request_interceptor st config)"
  shows "sent be st config = [w1 st config] \<or>
     (\<not> js_includes (c_url config) ''/auth/token/'' \<and>
      (\<exists>rt. sent be st config = [w1 st config, wire_of [] (refresh_config rt)] \<or>
        (\<exists>a. sent be st config = [w1 st config, wire_of [] (refresh_config rt),
                 (w1 st config)\<lparr>w_Authorization := Some (''Bearer '' @ a)\<rparr>])))"
  using api_request_shape[of be st config]
  unfolding sent_def w1_def
  by (elim exE conjE disjE) (simp_all, blast+)

lemma sent_at_most_one_refresh:
  "length (filter is_refresh_call (sent be st config)) \<le> 1"
proof -
  let ?w1 = "wire_of API_BASE_URL (request_interceptor st config)"
  have n: "\<not> is_refresh_call ?w1 \<and> \<not> is_refresh_call (?w1\<lparr>w_Authorization := x\<rparr>)"
    if "\<not> js_includes (c_url config) ''/auth/token/''" for x
  proof -
    from that have "\<not> js_includes (c_url (request_interceptor st config)) ''/auth/token/''"
      by (simp add: interceptor_keeps)
    then have "\<not> is_refresh_call ?w1"
      by (rule not_refresh_call)
    then show ?thesis
      by (simp add: is_refresh_call_def)
  qed
  from sent_shape[of be st config] show ?thesis
  proof (elim disjE conjE exE)
    assume "sent be st config = [?w1]"
    then show ?thesis by simp
  next
    fix rt
    assume "\<not> js_includes (c_url config) ''/auth/token/''"
      and "sent be st config = [?w1, wire_of [] (refresh_config rt)]"
    then show ?thesis using n by (simp add: refresh_is_refresh_call)
  next
    fix rt a
    assume "\<not> js_includes (c_url config) ''/auth/token/''"
      and "sent be st config = [?w1, wire_of [] (refresh_config rt),
                 ?w1\<lparr>w_Authorization := Some (''Bearer '' @ a)\<rparr>]"
    then show ?thesis using n by (simp add: refresh_is_refresh_call)
  qed
qed

lemma sent_first:
  "take 1 (sent be st config) = [wire_of API_BASE_URL (request_interceptor st config)]"
  using sent_shape[of be st config] by (elim disjE conjE exE) simp_all

lemma refresh_block_attempts:
  assumes "SecureStore st ''refresh_token'' = Some rt" "rt \<noteq> []"
  shows "wire_log (snd (refresh_block be orig st))
     = wire_log st @ [wire_of [] (refresh_config rt)]"
  using assms
  by (auto simp: refresh_block_def transmit_def setItemAsync_def get_prop_def
      split: option.splits if_splits sum.splits prod.splits jsval.splits)

lemma sent_refresh_attempted:
  fixes be :: backend
  assumes "\<not> c_retry config"
    and "\<not> js_includes (c_url config) ''/auth/token/''"
    and "be (wire_log st) (wire_of API_BASE_URL (request_interceptor st config)) = Response r1"
    and "r_status r1 = 401"
    and "SecureStore st ''refresh_token'' = Some rt"
    and "rt \<noteq> []"
  shows "take 2 (sent be st config)
     = [wire_of API_BASE_URL (request_interceptor st config), wire_of [] (refresh_config rt)]"
proof -
  let ?c1 = "request_interceptor st config"
  let ?w1 = "wire_of API_BASE_URL ?c1"
  let ?st1 = "st\<lparr>wire_log := wire_log st @ [?w1]\<rparr>"
  have t1: "transmit be API_BASE_URL ?c1 st = (Inl (AxiosError ?c1 (Some r1)), ?st1)"
    using assms(3,4) by (simp add: transmit_def settle_def)
  obtain d st2 where rr: "response_rejected be (AxiosError ?c1 (Some r1)) ?st1 = (d, st2)"
    by (cases "response_rejected be (AxiosError ?c1 (Some r1)) ?st1") auto
  have tok: "SecureStore ?st1 ''refresh_token'' = Some rt" using assms(5) by simp
  have l2: "wire_log st2 = wire_log st @ [?w1, wire_of [] (refresh_config rt)]"
    using rr assms(1,2,4) refresh_block_attempts[OF tok assms(6), of be "?c1\<lparr>c_retry := True\<rparr>"]
    by (auto simp: response_rejected_def is_401_def interceptor_keeps deleteItemAsync_def
        split: prod.splits sum.splits option.splits)
  show ?thesis
  proof (cases d)
    case (Reject e)
    then have "api_request be st config = (Inl e, st2)"
      by (subst api_request.simps) (simp only: t1 rr prod.case sum.case decision.case)
    then show ?thesis
      by (simp add: sent_def l2)
  next
    case (Retry again)
    then have "api_request be st config = api_request be st2 again"
      by (subst api_request.simps) (simp only: t1 rr prod.case sum.case decision.case)
    moreover obtain ws where "wire_log (snd (api_request be st2 again))
        = wire_log st2 @ wire_of API_BASE_URL (request_interceptor st2 again) # ws"
      using api_request_shape[of be st2 again] by blast
    ultimately show ?thesis
      by (simp add: sent_def l2)
  qed
qed

lemma sent_one_refresh:
  fixes be :: backend
  assumes "\<not> c_retry config"
    and "\<not> js_includes (c_url config) ''/auth/token/''"
    and "be (wire_log st) (wire_of API_BASE_URL (request_interceptor st config)) = Response r1"
    and "r_status r1 = 401"
    and "SecureStore st ''refresh_token'' = Some rt"
    and "rt \<noteq> []"
  shows "length (filter is_refresh_call (sent be st config)) = 1"
proof -
  let ?w1 = "wire_of API_BASE_URL (request_interceptor st config)"
  have "\<not> js_includes (c_url (request_interceptor st config)) ''/auth/token/''"
    using assms(2) by (simp add: interceptor_keeps)
  then have n1: "\<not> is_refresh_call ?w1"
    by (rule not_refresh_call)
  then have n3: "\<not> is_refresh_call (?w1\<lparr>w_Authorization := x\<rparr>)" for x
    by (simp add: is_refresh_call_def)
  note two = sent_refresh_attempted[where be=be, OF assms]
  from sent_shape[of be st config] show ?thesis
  proof (elim disjE conjE exE)
    assume "sent be st config = [?w1]"
    with two show ?thesis by simp
  next
    fix rt'
    assume "sent be st config = [?w1, wire_of [] (refresh_config rt')]"
    then show ?thesis using n1 by (simp add: refresh_is_refresh_call)
  next
    fix rt' a
    assume "sent be st config = [?w1, wire_of [] (refresh_config rt'),
                 ?w1\<lparr>w_Authorization := Some (''Bearer '' @ a)\<rparr>]"
    then show ?thesis using n1 n3 by (simp add: refresh_is_refresh_call)
  qed
qed

lemma refresh_block_rejected:
  assumes "SecureStore st ''refresh_token'' = Some rt" "rt \<noteq> []"
    and "settle (refresh_config rt) (be (wire_log st) (wire_of [] (refresh_config rt))) = Inl e"
  shows "refresh_block be orig st
     = (Inl e, st\<lparr>wire_log := wire_log st @ [wire_of [] (refresh_config rt)]\<rparr>)"
  using assms by (simp add: refresh_block_def transmit_def)

lemma api_request_auth_token:
  assumes "js_includes (c_url config) ''/auth/token/''"
  shows "api_request be st config
     = (settle config (be (wire_log st) (wire_of API_BASE_URL config)),
        st\<lparr>wire_log := wire_log st @ [wire_of API_BASE_URL config]\<rparr>)"
proof -
  from assms have "js_includes (c_url config) ''/auth/''"
    by (rule auth_token_in_auth)
  then have ri: "request_interceptor st config = config"
    by (simp add: request_interceptor_def)
  from assms show ?thesis
    by (simp add: api_request_pass ri transmit_def)
qed

lemma api_request_frame:
  "AsyncStorage (snd (api_request be st config)) = AsyncStorage st"
  "router (snd (api_request be st config)) = router st"
  "k \<noteq> ''access_token'' \<Longrightarrow> k \<noteq> ''refresh_token'' \<Longrightarrow>
     SecureStore (snd (api_request be st config)) k = SecureStore st k"
  using api_request_shape[of be st config] by blast+

lemma authService_login_run:
  "authService_login be st email password role =
     (case settle (login_config email password role)
             (be (wire_log st) (wire_of API_BASE_URL (login_config email password role))) of
        Inl e \<Rightarrow> Inl e | Inr response \<Rightarrow> Inr (r_data response),
      st\<lparr>wire_log := wire_log st @ [wire_of API_BASE_URL (login_config email password role)]\<rparr>)"
proof -
  have "js_includes (c_url (login_config email password role)) ''/auth/token/''"
    by (simp add: login_config_def post_config_def)
  then have "api_request be st (login_config email password role)
     = (settle (login_config email password role)
          (be (wire_log st) (wire_of API_BASE_URL (login_config email password role))),
        st\<lparr>wire_log := wire_log st @ [wire_of API_BASE_URL (login_config email password role)]\<rparr>)"
    by (rule api_request_auth_token)
  then show ?thesis
    unfolding authService_login_def
    by (simp split: sum.splits)
qed

lemma login_failed_path:
  assumes "fst (authService_login be st email password role) = Inl err"
  shows "login be stringify st email password role
     = (login_failed stringify err,
        st\<lparr>wire_log := wire_log st @ [wire_of API_BASE_URL (login_config email password role)]\<rparr>)"
  using assms unfolding login_def authService_login_run
  by (simp split: sum.splits)

lemma login_success_path:
  assumes auth: "fst (authService_login be st email password role) = Inr response"
    and acc: "get_field response ''access'' = JStr a"
    and ref: "get_field response ''refresh'' = JStr r"
    and fetch: "fetch_userData be
        (tokens_stored (snd (authService_login be st email password role)) a r)
        email role = (u, st4)"
  shows "login be stringify st email password role =
     (\<lparr>success = True, message = JStr ''Login successful'', user = Some u\<rparr>,
      st4\<lparr>SecureStore := (SecureStore st4)(''access_token'' \<mapsto> a, ''refresh_token'' \<mapsto> r,
              ''current_user'' \<mapsto> stringify (user_object u)),
          AsyncStorage := (AsyncStorage st4)(''current_user'' \<mapsto> stringify (user_object u),
              ''userRole'' \<mapsto> u_role u, ''isLoggedIn'' \<mapsto> ''true''),
          router := router st4 @
            [if u_role u = ''designer'' then ''/(designer-tabs)/dashboard'' else ''/(tabs)/home'']\<rparr>)"
proof -
  obtain st1 where a1: "authService_login be st email password role = (Inr response, st1)"
    using auth by (cases "authService_login be st email password role") auto
  from acc have nn: "response \<noteq> JUndefined" "response \<noteq> JNull" by auto
  from fetch have f: "fetch_userData be
        (st1\<lparr>SecureStore := (SecureStore st1)(''access_token'' \<mapsto> a, ''refresh_token'' \<mapsto> r)\<rparr>)
        email role = (u, st4)"
    by (simp add: a1 tokens_stored_def)
  show ?thesis
    unfolding login_def a1
    using nn acc ref f
    by (simp add: get_prop_def setItemAsync_def setUserSession_def setAuthTokens_def
        AsyncStorage_setItem_def)
qed

lemma login_success_frame:
  assumes auth: "fst (authService_login be st email password role) = Inr response"
    and acc: "get_field response ''access'' = JStr a"
    and ref: "get_field response ''refresh'' = JStr r"
    and fetch: "fetch_userData be
        (tokens_stored (snd (authService_login be st email password role)) a r)
        email role = (u, st4)"
  shows "fst (login be stringify st email password role)
       = \<lparr>success = True, message = JStr ''Login successful'', user = Some u\<rparr>"
    and "SecureStore (snd (login be stringify st email password role)) ''access_token'' = Some a"
    and "SecureStore (snd (login be stringify st email password role)) ''refresh_token'' = Some r"
    and "SecureStore (snd (login be stringify st email password role)) ''current_user''
       = Some (stringify (user_object u))"
    and "AsyncStorage (snd (login be stringify st email password role)) ''current_user''
       = Some (stringify (user_object u))"
    and "AsyncStorage (snd (login be stringify st email password role)) ''userRole''
       = Some (u_role u)"
    and "AsyncStorage (snd (login be stringify st email password role)) ''isLoggedIn''
       = Some ''true''"
    and "router (snd (login be stringify st email password role))
       = router st4 @
          [if u_role u = ''designer'' then ''/(designer-tabs)/dashboard'' else ''/(tabs)/home'']"
  unfolding login_success_path[OF assms] by simp_all

lemma fetch_userData_router:
  "router (snd (fetch_userData be (tokens_stored (snd (authService_login be st email password role)) a r)
      email' role')) = router st"
proof -
  have "router (snd (fetch_userData be st3 e' r')) = router st3" for st3 e' r'
    using api_request_frame(2)[of be st3 "get_config ''/auth/profile/''"]
    by (auto simp: fetch_userData_def split: prod.splits sum.splits)
  then show ?thesis
    by (simp add: tokens_stored_def authService_login_run)
qed


lemma fetch_userData_resolved:
  assumes "fst (api_request be st3 (get_config ''/auth/profile/'')) = Inr presp"
    and "truthy (get_field (r_data presp) ''user_type'')"
  shows "u_role (fst (fetch_userData be st3 email role))
     = (case get_field (r_data presp) ''user_type'' of
          JStr s \<Rightarrow> if s = ''client'' \<or> s = ''designer'' then s else ''client''
        | _ \<Rightarrow> ''client'')"
proof -
  from assms(2) have "r_data presp \<noteq> JUndefined" "r_data presp \<noteq> JNull"
    by auto
  with assms show ?thesis
    by (auto simp: fetch_userData_def profile_userData_def get_prop_def js_or_def Let_def
        split: prod.splits sum.splits)
qed

lemma logout_finally_ok:
  assumes "cleanup_succeeds fl calls"
  shows "logout_finally fl (calls, st1) =
     (Inr (),
      st1\<lparr>SecureStore := (SecureStore st1)(''access_token'' := None, ''refresh_token'' := None,
              ''current_user'' := None),
          AsyncStorage := (AsyncStorage st1)(''userRole'' := None, ''isLoggedIn'' := None,
              ''current_user'' := None),
          router := router st1 @ [''/login'']\<rparr>)"
  using assms
  by (simp add: cleanup_succeeds_def logout_finally_def clearAuthTokens_def
      deleteItemAsync_faulty_def multiRemove_faulty_def deleteItemAsync_def)

lemma authService_logout_world:
  "wire_log (snd (snd (authService_logout fl (calls, st)))) = wire_log st"
  "router (snd (snd (authService_logout fl (calls, st)))) = router st"
  "AsyncStorage (snd (snd (authService_logout fl (calls, st)))) = AsyncStorage st"
  by (simp_all add: authService_logout_def deleteItemAsync_faulty_def deleteItemAsync_def)

lemma fetch_userData_role:
  assumes "fst (api_request be st3 (get_config ''/auth/profile/'')) = Inr presp"
    and "r_data presp = JObj kvs"
  shows "u_role (fst (fetch_userData be st3 email role))
     = (case js_or (get_field (r_data presp) ''user_type'') (JStr role) of
          JStr s \<Rightarrow> if s = ''client'' \<or> s = ''designer'' then s else ''client''
        | _ \<Rightarrow> ''client'')"
  using assms
  by (auto simp: fetch_userData_def profile_userData_def get_prop_def Let_def
      split: prod.splits sum.splits)

section \<open>The claims about the interceptors\<close>

text \<open>
  C1. A request through \<^verbatim>\<open>api\<close> that is not marked \<^verbatim>\<open>_retry\<close>, whose url does not
  contain \<^verbatim>\<open>/auth/token/\<close> and which is answered with 401, while a refresh token (a
  non-empty string, which is what \<^verbatim>\<open>if (refreshToken)\<close> lets through) is stored:
  exactly one POST to the refresh endpoint goes out, right after the original request,
  whatever is answered to it. When the refresh endpoint answers with a 2xx response that
  carries a string \<^verbatim>\<open>access\<close> and either a string \<^verbatim>\<open>refresh\<close> or none, exactly three
  requests go out, the original one, the refresh call, and the original one again with
  \<^verbatim>\<open>Authorization: Bearer <new access token>\<close>; the new access token is stored, and the
  new refresh token when the response has one; the caller gets the outcome of the
  request sent again.
\<close>

theorem refresh_once_then_retry:
  fixes be :: backend
  defines "w1 \<equiv> \<lambda>st config. wire_of API_BASE_URL (request_interceptor st config)"
  assumes "\<not> c_retry config"
    and "\<not> js_includes (c_url config) ''/auth/token/''"
    and "be (wire_log st) (w1 st config) = Response r1"
    and "r_status r1 = 401"
    and "SecureStore st ''refresh_token'' = Some rt"
    and "rt \<noteq> []"
  shows "length (filter is_refresh_call (sent be st config)) = 1
     \<and> take 2 (sent be st config) = [w1 st config, wire_of [] (refresh_config rt)]
     \<and> (be (wire_log st @ [w1 st config]) (wire_of [] (refresh_config rt)) = Response r2
         \<and> 200 \<le> r_status r2 \<and> r_status r2 < 300
         \<and> get_field (r_data r2) ''access'' = JStr a
         \<and> (get_field (r_data r2) ''refresh'' = JStr nr
              \<or> \<not> truthy (get_field (r_data r2) ''refresh''))
        \<longrightarrow> sent be st config =
              [w1 st config, wire_of [] (refresh_config rt),
               (w1 st config)\<lparr>w_Authorization := Some (''Bearer '' @ a)\<rparr>]
          \<and> SecureStore (snd (api_request be st config)) ''access_token'' = Some a
          \<and> SecureStore (snd (api_request be st config)) ''refresh_token''
              = Some (if truthy (get_field (r_data r2) ''refresh'') then nr else rt)
          \<and> fst (api_request be st config)
              = settle ((request_interceptor st config)
                          \<lparr>c_Authorization := Some (''Bearer '' @ a), c_retry := True\<rparr>)
                  (be (wire_log st @ [w1 st config, wire_of [] (refresh_config rt)])
                      ((w1 st config)\<lparr>w_Authorization := Some (''Bearer '' @ a)\<rparr>)))"
proof (intro conjI impI)
  show "length (filter is_refresh_call (sent be st config)) = 1"
    using assms(2-7) unfolding w1_def by (rule sent_one_refresh[where be=be])
  show "take 2 (sent be st config) = [w1 st config, wire_of [] (refresh_config rt)]"
    using assms(2-7) unfolding w1_def by (rule sent_refresh_attempted[where be=be])
next
  assume h: "be (wire_log st @ [w1 st config]) (wire_of [] (refresh_config rt)) = Response r2
         \<and> 200 \<le> r_status r2 \<and> r_status r2 < 300
         \<and> get_field (r_data r2) ''access'' = JStr a
         \<and> (get_field (r_data r2) ''refresh'' = JStr nr
              \<or> \<not> truthy (get_field (r_data r2) ''refresh''))"
  let ?again = "(request_interceptor st config)
                  \<lparr>c_Authorization := Some (''Bearer '' @ a), c_retry := True\<rparr>"
  have run: "api_request be st config =
     (settle ?again
        (be (wire_log st @ [wire_of API_BASE_URL (request_interceptor st config),
                            wire_of [] (refresh_config rt)])
            (wire_of API_BASE_URL ?again)),
      st\<lparr>SecureStore := (SecureStore st)(''access_token'' \<mapsto> a,
            ''refresh_token'' \<mapsto> (if truthy (get_field (r_data r2) ''refresh'') then nr else rt)),
         wire_log := wire_log st @ [wire_of API_BASE_URL (request_interceptor st config),
            wire_of [] (refresh_config rt), wire_of API_BASE_URL ?again]\<rparr>)"
  proof (rule api_request_refresh_retry[OF _ _ refl refl _ _ _ _ _ _ _ _ _ refl])
    show "\<not> c_retry config" "\<not> js_includes (c_url config) ''/auth/token/''"
      "r_status r1 = 401" "SecureStore st ''refresh_token'' = Some rt" "rt \<noteq> []"
      by (rule assms)+
    show "be (wire_log st) (wire_of API_BASE_URL (request_interceptor st config)) = Response r1"
      using assms(4) unfolding w1_def .
    show "be (wire_log st @ [wire_of API_BASE_URL (request_interceptor st config)])
          (wire_of [] (refresh_config rt)) = Response r2"
      "200 \<le> r_status r2" "r_status r2 < 300" "get_field (r_data r2) ''access'' = JStr a"
      "get_field (r_data r2) ''refresh'' = JStr nr
        \<or> \<not> truthy (get_field (r_data r2) ''refresh'')"
      using h unfolding w1_def by blast+
  qed
  show "sent be st config = [w1 st config, wire_of [] (refresh_config rt),
            (w1 st config)\<lparr>w_Authorization := Some (''Bearer '' @ a)\<rparr>]"
    unfolding sent_def run by (simp add: wire_of_def w1_def)
  show "SecureStore (snd (api_request be st config)) ''access_token'' = Some a"
    unfolding run by simp
  show "SecureStore (snd (api_request be st config)) ''refresh_token''
         = Some (if truthy (get_field (r_data r2) ''refresh'') then nr else rt)"
    unfolding run by simp
  show "fst (api_request be st config)
         = settle ?again
             (be (wire_log st @ [w1 st config, wire_of [] (refresh_config rt)])
                 ((w1 st config)\<lparr>w_Authorization := Some (''Bearer '' @ a)\<rparr>))"
    unfolding run by (simp add: wire_of_def w1_def)
qed

theorem refresh_once_then_retry_witness:
  "\<not> c_retry (get_config ''/designs/'')
   \<and> \<not> js_includes (c_url (get_config ''/designs/'')) ''/auth/token/''
   \<and> SecureStore demo_world ''refresh_token'' = Some ''R1''
   \<and> sent (demo_backend ''R1'' ''A2'' (JObj [])) demo_world (get_config ''/designs/'') =
        [\<lparr>w_baseURL = API_BASE_URL, w_method = GET, w_url = ''/designs/'',
          w_Authorization = Some ''Bearer A1'', w_data = JUndefined\<rparr>,
         \<lparr>w_baseURL = [], w_method = POST, w_url = API_BASE_URL @ ''/auth/token/refresh/'',
          w_Authorization = None, w_data = JObj [(''refresh'', JStr ''R1'')]\<rparr>,
         \<lparr>w_baseURL = API_BASE_URL, w_method = GET, w_url = ''/designs/'',
          w_Authorization = Some ''Bearer A2'', w_data = JUndefined\<rparr>]
   \<and> length (filter is_refresh_call
         (sent (demo_backend ''R1'' ''A2'' (JObj [])) demo_world (get_config ''/designs/''))) = 1
   \<and> SecureStore (snd (api_request (demo_backend ''R1'' ''A2'' (JObj [])) demo_world
         (get_config ''/designs/''))) ''access_token'' = Some ''A2''
   \<and> SecureStore (snd (api_request (demo_backend ''R1'' ''A2'' (JObj [])) demo_world
         (get_config ''/designs/''))) ''refresh_token'' = Some ''R2''
   \<and> fst (api_request (demo_backend ''R1'' ''A2'' (JObj [])) demo_world (get_config ''/designs/''))
       = Inr \<lparr>r_status = 200, r_data = JObj []\<rparr>"
proof -
  let ?be = "demo_backend ''R1'' ''A2'' (JObj [])"
  let ?c = "get_config ''/designs/''"
  let ?w1 = "wire_of API_BASE_URL (request_interceptor demo_world ?c)"
  let ?r1 = "\<lparr>r_status = 401, r_data = JObj [(''detail'', JStr ''Not authenticated'')]\<rparr>"
  let ?r2 = "\<lparr>r_status = 200,
              r_data = JObj [(''access'', JStr ''A2''), (''refresh'', JStr ''R2'')]\<rparr>"
  have h1: "\<not> c_retry ?c" by (simp add: get_config_def)
  have h2: "\<not> js_includes (c_url ?c) ''/auth/token/''" by (simp add: get_config_def)
  have h3: "?be (wire_log demo_world) ?w1 = Response ?r1" by code_simp
  have h4: "r_status ?r1 = 401" by simp
  have h5: "SecureStore demo_world ''refresh_token'' = Some ''R1''" by (simp add: demo_world_def)
  have h6: "''R1'' \<noteq> []" by simp
  have h7: "?be (wire_log demo_world @ [?w1]) (wire_of [] (refresh_config ''R1'')) = Response ?r2"
    by code_simp
  have h8: "200 \<le> r_status ?r2" by simp
  have h9: "r_status ?r2 < 300" by simp
  have h10: "get_field (r_data ?r2) ''access'' = JStr ''A2''" by simp
  have h11: "get_field (r_data ?r2) ''refresh'' = JStr ''R2''
      \<or> \<not> truthy (get_field (r_data ?r2) ''refresh'')" by simp
  have w1: "?w1 = \<lparr>w_baseURL = API_BASE_URL, w_method = GET, w_url = ''/designs/'',
          w_Authorization = Some ''Bearer A1'', w_data = JUndefined\<rparr>"
    by (simp add: wire_of_def request_interceptor_def get_config_def demo_world_def)
  have ok: "settle ((request_interceptor demo_world ?c)
                     \<lparr>c_Authorization := Some (''Bearer '' @ ''A2''), c_retry := True\<rparr>)
             (?be (wire_log demo_world @ [?w1, wire_of [] (refresh_config ''R1'')])
                 (?w1\<lparr>w_Authorization := Some (''Bearer '' @ ''A2'')\<rparr>))
      = Inr \<lparr>r_status = 200, r_data = JObj []\<rparr>"
    by code_simp
  note u = refresh_once_then_retry[where be="?be" and st=demo_world and config="?c",
      OF h1 h2 h3 h4 h5 h6]
  note t = u[where ?r2.0="?r2" and a="''A2''" and nr="''R2''", THEN conjunct2, THEN conjunct2,
      THEN mp, OF conjI[OF h7 conjI[OF h8 conjI[OF h9 conjI[OF h10 h11]]]], unfolded ok]
  have c1: "sent ?be demo_world ?c =
        [\<lparr>w_baseURL = API_BASE_URL, w_method = GET, w_url = ''/designs/'',
          w_Authorization = Some ''Bearer A1'', w_data = JUndefined\<rparr>,
         \<lparr>w_baseURL = [], w_method = POST, w_url = API_BASE_URL @ ''/auth/token/refresh/'',
          w_Authorization = None, w_data = JObj [(''refresh'', JStr ''R1'')]\<rparr>,
         \<lparr>w_baseURL = API_BASE_URL, w_method = GET, w_url = ''/designs/'',
          w_Authorization = Some ''Bearer A2'', w_data = JUndefined\<rparr>]"
    using t[THEN conjunct1, unfolded w1] by (simp add: wire_of_def refresh_config_def)
  have c2: "length (filter is_refresh_call (sent ?be demo_world ?c)) = 1"
    using u[THEN conjunct1] .
  have c3: "SecureStore (snd (api_request ?be demo_world ?c)) ''access_token'' = Some ''A2''"
    using t by blast
  have c4: "SecureStore (snd (api_request ?be demo_world ?c)) ''refresh_token'' = Some ''R2''"
    using t[THEN conjunct2, THEN conjunct2, THEN conjunct1] by simp
  have c5: "fst (api_request ?be demo_world ?c) = Inr \<lparr>r_status = 200, r_data = JObj []\<rparr>"
    using t by blast
  show ?thesis
    by (intro conjI h1 h2 h5 c1 c2 c3 c4 c5)
qed

text \<open>
  C2. One call of \<^verbatim>\<open>api\<close> puts at most one POST to the refresh endpoint on the network,
  whatever the backend answers. A request that is already marked \<^verbatim>\<open>_retry\<close> and is
  answered with 401 is rejected with that 401 and nothing else happens. So when the
  request sent again after a refresh is answered with 401 too, the caller gets that
  second 401 as the error, its config carries the \<^verbatim>\<open>_retry\<close> mark, and the one
  refresh call is the only one.
\<close>

theorem refresh_at_most_once:
  fixes be :: backend
  defines "w1 \<equiv> \<lambda>st config. wire_of API_BASE_URL (request_interceptor st config)"
  shows "length (filter is_refresh_call (sent be st config)) \<le> 1
    \<and> (c_retry config \<and> be (wire_log st) (w1 st config) = Response r \<and> r_status r = 401
         \<longrightarrow> api_request be st config
               = (Inl (AxiosError (request_interceptor st config) (Some r)),
                  st\<lparr>wire_log := wire_log st @ [w1 st config]\<rparr>))
    \<and> (\<not> c_retry config \<and> \<not> js_includes (c_url config) ''/auth/token/''
         \<and> be (wire_log st) (w1 st config) = Response r1 \<and> r_status r1 = 401
         \<and> SecureStore st ''refresh_token'' = Some rt \<and> rt \<noteq> []
         \<and> be (wire_log st @ [w1 st config]) (wire_of [] (refresh_config rt)) = Response r2
         \<and> 200 \<le> r_status r2 \<and> r_status r2 < 300
         \<and> get_field (r_data r2) ''access'' = JStr a
         \<and> (get_field (r_data r2) ''refresh'' = JStr nr
              \<or> \<not> truthy (get_field (r_data r2) ''refresh''))
         \<and> be (wire_log st @ [w1 st config, wire_of [] (refresh_config rt)])
               ((w1 st config)\<lparr>w_Authorization := Some (''Bearer '' @ a)\<rparr>) = Response r3
         \<and> r_status r3 = 401
         \<longrightarrow> fst (api_request be st config)
               = Inl (AxiosError ((request_interceptor st config)
                        \<lparr>c_Authorization := Some (''Bearer '' @ a), c_retry := True\<rparr>) (Some r3))
             \<and> sent be st config =
                 [w1 st config, wire_of [] (refresh_config rt),
                  (w1 st config)\<lparr>w_Authorization := Some (''Bearer '' @ a)\<rparr>]
             \<and> filter is_refresh_call (sent be st config) = [wire_of [] (refresh_config rt)])"
proof (intro conjI impI)
  show "length (filter is_refresh_call (sent be st config)) \<le> 1"
    by (rule sent_at_most_one_refresh)
next
  assume h: "c_retry config \<and> be (wire_log st) (w1 st config) = Response r \<and> r_status r = 401"
  then have "api_request be st config
      = transmit be API_BASE_URL (request_interceptor st config) st"
    by (simp add: api_request_pass)
  with h show "api_request be st config
               = (Inl (AxiosError (request_interceptor st config) (Some r)),
                  st\<lparr>wire_log := wire_log st @ [w1 st config]\<rparr>)"
    by (simp add: transmit_def settle_def w1_def)
next
  assume h: "\<not> c_retry config \<and> \<not> js_includes (c_url config) ''/auth/token/''
         \<and> be (wire_log st) (w1 st config) = Response r1 \<and> r_status r1 = 401
         \<and> SecureStore st ''refresh_token'' = Some rt \<and> rt \<noteq> []
         \<and> be (wire_log st @ [w1 st config]) (wire_of [] (refresh_config rt)) = Response r2
         \<and> 200 \<le> r_status r2 \<and> r_status r2 < 300
         \<and> get_field (r_data r2) ''access'' = JStr a
         \<and> (get_field (r_data r2) ''refresh'' = JStr nr
              \<or> \<not> truthy (get_field (r_data r2) ''refresh''))
         \<and> be (wire_log st @ [w1 st config, wire_of [] (refresh_config rt)])
               ((w1 st config)\<lparr>w_Authorization := Some (''Bearer '' @ a)\<rparr>) = Response r3
         \<and> r_status r3 = 401"
  let ?again = "(request_interceptor st config)
                  \<lparr>c_Authorization := Some (''Bearer '' @ a), c_retry := True\<rparr>"
  have w3: "wire_of API_BASE_URL ?again
      = (w1 st config)\<lparr>w_Authorization := Some (''Bearer '' @ a)\<rparr>"
    unfolding w1_def wire_of_def by simp
  have run: "api_request be st config =
     (settle ?again (be (wire_log st @ [w1 st config, wire_of [] (refresh_config rt)])
         (wire_of API_BASE_URL ?again)),
      st\<lparr>SecureStore := (SecureStore st)(''access_token'' \<mapsto> a,
            ''refresh_token'' \<mapsto> (if truthy (get_field (r_data r2) ''refresh'') then nr else rt)),
         wire_log := wire_log st @ [w1 st config, wire_of [] (refresh_config rt),
            wire_of API_BASE_URL ?again]\<rparr>)"
    unfolding w1_def
  proof (rule api_request_refresh_retry[OF _ _ refl refl _ _ _ _ _ _ _ _ _ refl])
    show "\<not> c_retry config" "\<not> js_includes (c_url config) ''/auth/token/''"
      "r_status r1 = 401" "SecureStore st ''refresh_token'' = Some rt" "rt \<noteq> []"
      "200 \<le> r_status r2" "r_status r2 < 300" "get_field (r_data r2) ''access'' = JStr a"
      "get_field (r_data r2) ''refresh'' = JStr nr
        \<or> \<not> truthy (get_field (r_data r2) ''refresh'')"
      using h by blast+
    show "be (wire_log st) (wire_of API_BASE_URL (request_interceptor st config)) = Response r1"
      "be (wire_log st @ [wire_of API_BASE_URL (request_interceptor st config)])
          (wire_of [] (refresh_config rt)) = Response r2"
      using h unfolding w1_def by blast+
  qed
  have third: "be (wire_log st @ [w1 st config, wire_of [] (refresh_config rt)])
         (wire_of API_BASE_URL ?again) = Response r3"
    unfolding w3 using h by blast
  have s: "sent be st config = [w1 st config, wire_of [] (refresh_config rt),
            (w1 st config)\<lparr>w_Authorization := Some (''Bearer '' @ a)\<rparr>]"
    unfolding sent_def run w3 by simp
  show "fst (api_request be st config) = Inl (AxiosError ?again (Some r3))"
    unfolding run third using h by (simp add: settle_def)
  show "sent be st config = [w1 st config, wire_of [] (refresh_config rt),
            (w1 st config)\<lparr>w_Authorization := Some (''Bearer '' @ a)\<rparr>]"
    by (rule s)
  have "\<not> js_includes (c_url (request_interceptor st config)) ''/auth/token/''"
    using h by (simp add: interceptor_keeps)
  then have n1: "\<not> is_refresh_call (w1 st config)"
    unfolding w1_def by (rule not_refresh_call)
  then have n3: "\<not> is_refresh_call ((w1 st config)\<lparr>w_Authorization := x\<rparr>)" for x
    by (simp add: is_refresh_call_def)
  show "filter is_refresh_call (sent be st config) = [wire_of [] (refresh_config rt)]"
    unfolding s using n1 n3 by (simp add: refresh_is_refresh_call)
qed

theorem refresh_at_most_once_witness:
  "c_retry ((get_config ''/designs/'')\<lparr>c_retry := True\<rparr>)
   \<and> fst (api_request (demo_backend ''R1'' ''A3'' (JObj [])) demo_world
            ((get_config ''/designs/'')\<lparr>c_retry := True\<rparr>))
       = Inl (AxiosError
           ((get_config ''/designs/'')\<lparr>c_retry := True, c_Authorization := Some ''Bearer A1''\<rparr>)
           (Some \<lparr>r_status = 401, r_data = JObj [(''detail'', JStr ''Not authenticated'')]\<rparr>))
   \<and> sent (demo_backend ''R1'' ''A3'' (JObj [])) demo_world
         ((get_config ''/designs/'')\<lparr>c_retry := True\<rparr>)
       = [\<lparr>w_baseURL = API_BASE_URL, w_method = GET, w_url = ''/designs/'',
           w_Authorization = Some ''Bearer A1'', w_data = JUndefined\<rparr>]
   \<and> \<not> c_retry (get_config ''/designs/'')
   \<and> SecureStore demo_world ''refresh_token'' = Some ''R1''
   \<and> fst (api_request (demo_backend ''R1'' ''A3'' (JObj [])) demo_world (get_config ''/designs/''))
       = Inl (AxiosError
           ((get_config ''/designs/'')\<lparr>c_retry := True, c_Authorization := Some ''Bearer A2''\<rparr>)
           (Some \<lparr>r_status = 401, r_data = JObj [(''detail'', JStr ''Not authenticated'')]\<rparr>))
   \<and> filter is_refresh_call
         (sent (demo_backend ''R1'' ''A3'' (JObj [])) demo_world (get_config ''/designs/''))
       = [\<lparr>w_baseURL = [], w_method = POST, w_url = API_BASE_URL @ ''/auth/token/refresh/'',
           w_Authorization = None, w_data = JObj [(''refresh'', JStr ''R1'')]\<rparr>]
   \<and> length (filter is_refresh_call
         (sent (demo_backend ''R1'' ''A3'' (JObj [])) demo_world (get_config ''/designs/''))) \<le> 1"
proof -
  let ?be = "demo_backend ''R1'' ''A3'' (JObj [])"
  let ?c = "get_config ''/designs/''"
  let ?cR = "(get_config ''/designs/'')\<lparr>c_retry := True\<rparr>"
  let ?w1 = "wire_of API_BASE_URL (request_interceptor demo_world ?c)"
  let ?wR = "wire_of API_BASE_URL (request_interceptor demo_world ?cR)"
  let ?r1 = "\<lparr>r_status = 401, r_data = JObj [(''detail'', JStr ''Not authenticated'')]\<rparr>"
  let ?r2 = "\<lparr>r_status = 200,
              r_data = JObj [(''access'', JStr ''A2''), (''refresh'', JStr ''R2'')]\<rparr>"
  have a1: "c_retry ?cR" by simp
  have a2: "?be (wire_log demo_world) ?wR = Response ?r1" by code_simp
  have a3: "r_status ?r1 = 401" by simp
  have h1: "\<not> c_retry ?c" by (simp add: get_config_def)
  have h2: "\<not> js_includes (c_url ?c) ''/auth/token/''" by (simp add: get_config_def)
  have h3: "?be (wire_log demo_world) ?w1 = Response ?r1" by code_simp
  have h5: "SecureStore demo_world ''refresh_token'' = Some ''R1''" by (simp add: demo_world_def)
  have h6: "''R1'' \<noteq> []" by simp
  have h7: "?be (wire_log demo_world @ [?w1]) (wire_of [] (refresh_config ''R1'')) = Response ?r2"
    by code_simp
  have h8: "200 \<le> r_status ?r2" "r_status ?r2 < 300" by simp_all
  have h10: "get_field (r_data ?r2) ''access'' = JStr ''A2''" by simp
  have h11: "get_field (r_data ?r2) ''refresh'' = JStr ''R2''
      \<or> \<not> truthy (get_field (r_data ?r2) ''refresh'')" by simp
  have h12: "?be (wire_log demo_world @ [?w1, wire_of [] (refresh_config ''R1'')])
      (?w1\<lparr>w_Authorization := Some (''Bearer '' @ ''A2'')\<rparr>) = Response ?r1"
    by code_simp
  have ri: "request_interceptor demo_world ?c = ?c\<lparr>c_Authorization := Some ''Bearer A1''\<rparr>"
    by (simp add: request_interceptor_def get_config_def demo_world_def)
  have riR: "request_interceptor demo_world ?cR
      = ?c\<lparr>c_retry := True, c_Authorization := Some ''Bearer A1''\<rparr>"
    by (simp add: request_interceptor_def get_config_def demo_world_def)
  note t = refresh_at_most_once[where be="?be" and st=demo_world]
  from t[where config="?cR" and r="?r1", THEN conjunct2, THEN conjunct1, THEN mp,
      OF conjI[OF a1 conjI[OF a2 a3]]]
  have b: "api_request ?be demo_world ?cR
      = (Inl (AxiosError (request_interceptor demo_world ?cR) (Some ?r1)),
         demo_world\<lparr>wire_log := wire_log demo_world @ [?wR]\<rparr>)" .
  have c2: "fst (api_request ?be demo_world ?cR)
      = Inl (AxiosError (?c\<lparr>c_retry := True, c_Authorization := Some ''Bearer A1''\<rparr>) (Some ?r1))"
    unfolding b riR by simp
  have c3: "sent ?be demo_world ?cR
       = [\<lparr>w_baseURL = API_BASE_URL, w_method = GET, w_url = ''/designs/'',
           w_Authorization = Some ''Bearer A1'', w_data = JUndefined\<rparr>]"
    unfolding sent_def b riR by (simp add: wire_of_def get_config_def)
  have hyps: "\<not> c_retry ?c \<and> \<not> js_includes (c_url ?c) ''/auth/token/''
         \<and> ?be (wire_log demo_world) ?w1 = Response ?r1 \<and> r_status ?r1 = 401
         \<and> SecureStore demo_world ''refresh_token'' = Some ''R1'' \<and> ''R1'' \<noteq> []
         \<and> ?be (wire_log demo_world @ [?w1]) (wire_of [] (refresh_config ''R1'')) = Response ?r2
         \<and> 200 \<le> r_status ?r2 \<and> r_status ?r2 < 300
         \<and> get_field (r_data ?r2) ''access'' = JStr ''A2''
         \<and> (get_field (r_data ?r2) ''refresh'' = JStr ''R2''
              \<or> \<not> truthy (get_field (r_data ?r2) ''refresh''))
         \<and> ?be (wire_log demo_world @ [?w1, wire_of [] (refresh_config ''R1'')])
               (?w1\<lparr>w_Authorization := Some (''Bearer '' @ ''A2'')\<rparr>) = Response ?r1
         \<and> r_status ?r1 = 401"
    by (intro conjI h1 h2 h3 a3 h5 h6 h7 h8 h10 h11 h12)
  note s = t[where config="?c" and ?r1.0="?r1" and rt="''R1''" and ?r2.0="?r2" and a="''A2''"
      and nr="''R2''" and ?r3.0="?r1", THEN conjunct2, THEN conjunct2, THEN mp, OF hyps]
  have c6: "fst (api_request ?be demo_world ?c)
      = Inl (AxiosError (?c\<lparr>c_retry := True, c_Authorization := Some ''Bearer A2''\<rparr>) (Some ?r1))"
    using s[THEN conjunct1] unfolding ri by simp
  have c7: "filter is_refresh_call (sent ?be demo_world ?c)
       = [\<lparr>w_baseURL = [], w_method = POST, w_url = API_BASE_URL @ ''/auth/token/refresh/'',
           w_Authorization = None, w_data = JObj [(''refresh'', JStr ''R1'')]\<rparr>]"
    using s[THEN conjunct2, THEN conjunct2] by (simp add: wire_of_def refresh_config_def)
  have c8: "length (filter is_refresh_call (sent ?be demo_world ?c)) \<le> 1"
    using t[where config="?c", THEN conjunct1] .
  show ?thesis
    by (intro conjI a1 c2 c3 h1 h5 c6 c7 c8)
qed

text \<open>
  C3, as the code has it. A request whose url contains \<^verbatim>\<open>/auth/\<close> leaves the request
  interceptor unchanged: no Authorization header is attached. A request whose url
  contains \<^verbatim>\<open>/auth/token/\<close> and which is answered with 401 is rejected with that 401;
  it is the only request sent, so no refresh is attempted, and neither store changes.
\<close>

theorem auth_paths_skipped:
  "(js_includes (c_url config) ''/auth/'' \<longrightarrow> request_interceptor st config = config)
   \<and> (js_includes (c_url config) ''/auth/token/''
        \<and> be (wire_log st) (wire_of API_BASE_URL config) = Response r \<and> r_status r = 401
      \<longrightarrow> api_request be st config
            = (Inl (AxiosError config (Some r)),
               st\<lparr>wire_log := wire_log st @ [wire_of API_BASE_URL config]\<rparr>)
          \<and> sent be st config = [wire_of API_BASE_URL config])"
proof (intro conjI impI)
  assume "js_includes (c_url config) ''/auth/''"
  then show "request_interceptor st config = config"
    by (simp add: request_interceptor_def)
next
  assume h: "js_includes (c_url config) ''/auth/token/''
        \<and> be (wire_log st) (wire_of API_BASE_URL config) = Response r \<and> r_status r = 401"
  then have run: "api_request be st config
     = (settle config (be (wire_log st) (wire_of API_BASE_URL config)),
        st\<lparr>wire_log := wire_log st @ [wire_of API_BASE_URL config]\<rparr>)"
    by (simp add: api_request_auth_token)
  from h show "api_request be st config
            = (Inl (AxiosError config (Some r)),
               st\<lparr>wire_log := wire_log st @ [wire_of API_BASE_URL config]\<rparr>)"
    unfolding run by (simp add: settle_def)
  show "sent be st config = [wire_of API_BASE_URL config]"
    unfolding sent_def run by simp
qed

theorem auth_paths_skipped_witness:
  "js_includes (c_url (get_config ''/auth/profile/'')) ''/auth/''
   \<and> request_interceptor demo_world (get_config ''/auth/profile/'') = get_config ''/auth/profile/''
   \<and> js_includes (c_url (post_config ''/auth/token/'' (JObj [(''password'', JStr ''no'')])))
        ''/auth/token/''
   \<and> api_request (demo_backend ''R1'' ''A2'' (JObj [])) demo_world
        (post_config ''/auth/token/'' (JObj [(''password'', JStr ''no'')]))
      = (Inl (AxiosError (post_config ''/auth/token/'' (JObj [(''password'', JStr ''no'')]))
           (Some \<lparr>r_status = 401, r_data = JObj [(''detail'', JStr ''No active account'')]\<rparr>)),
         demo_world\<lparr>wire_log := wire_log demo_world @
           [wire_of API_BASE_URL (post_config ''/auth/token/'' (JObj [(''password'', JStr ''no'')]))]\<rparr>)
   \<and> sent (demo_backend ''R1'' ''A2'' (JObj [])) demo_world
        (post_config ''/auth/token/'' (JObj [(''password'', JStr ''no'')]))
      = [wire_of API_BASE_URL (post_config ''/auth/token/'' (JObj [(''password'', JStr ''no'')]))]"
proof -
  let ?be = "demo_backend ''R1'' ''A2'' (JObj [])"
  let ?p = "get_config ''/auth/profile/''"
  let ?c = "post_config ''/auth/token/'' (JObj [(''password'', JStr ''no'')])"
  let ?r = "\<lparr>r_status = 401, r_data = JObj [(''detail'', JStr ''No active account'')]\<rparr>"
  have a1: "js_includes (c_url ?p) ''/auth/''" by (simp add: get_config_def)
  have b1: "js_includes (c_url ?c) ''/auth/token/''" by (simp add: post_config_def)
  have b2: "?be (wire_log demo_world) (wire_of API_BASE_URL ?c) = Response ?r" by code_simp
  have b3: "r_status ?r = 401" by simp
  note a = auth_paths_skipped[where config="?p" and st=demo_world, THEN conjunct1, THEN mp, OF a1]
  note b = auth_paths_skipped[where config="?c" and st=demo_world and be="?be" and r="?r",
      THEN conjunct2, THEN mp, OF conjI[OF b1 conjI[OF b2 b3]]]
  show ?thesis
    by (intro conjI a1 a b1 b[THEN conjunct1] b[THEN conjunct2])
qed

text \<open>
  C3 as stated fails for a url that contains \<^verbatim>\<open>/auth/\<close> but not \<^verbatim>\<open>/auth/token/\<close>:
  \<^verbatim>\<open>GET /auth/profile/\<close> goes out without a header, is answered with 401, and the
  response interceptor posts to the refresh endpoint and sends the request again.
\<close>

theorem auth_profile_401_refreshes:
  "js_includes (c_url (get_config ''/auth/profile/'')) ''/auth/''
   \<and> demo_backend ''R1'' ''A2'' (JObj [(''user_type'', JStr ''designer'')]) []
        (wire_of API_BASE_URL (request_interceptor demo_world (get_config ''/auth/profile/'')))
      = Response \<lparr>r_status = 401, r_data = JObj [(''detail'', JStr ''Not authenticated'')]\<rparr>
   \<and> sent (demo_backend ''R1'' ''A2'' (JObj [(''user_type'', JStr ''designer'')])) demo_world
        (get_config ''/auth/profile/'')
      = [\<lparr>w_baseURL = API_BASE_URL, w_method = GET, w_url = ''/auth/profile/'',
          w_Authorization = None, w_data = JUndefined\<rparr>,
         \<lparr>w_baseURL = [], w_method = POST, w_url = API_BASE_URL @ ''/auth/token/refresh/'',
          w_Authorization = None, w_data = JObj [(''refresh'', JStr ''R1'')]\<rparr>,
         \<lparr>w_baseURL = API_BASE_URL, w_method = GET, w_url = ''/auth/profile/'',
          w_Authorization = Some ''Bearer A2'', w_data = JUndefined\<rparr>]
   \<and> filter is_refresh_call
        (sent (demo_backend ''R1'' ''A2'' (JObj [(''user_type'', JStr ''designer'')])) demo_world
           (get_config ''/auth/profile/''))
      = [\<lparr>w_baseURL = [], w_method = POST, w_url = API_BASE_URL @ ''/auth/token/refresh/'',
          w_Authorization = None, w_data = JObj [(''refresh'', JStr ''R1'')]\<rparr>]"
  by code_simp

text \<open>
  C4. The code misses the claim on the session record. On the device \<open>demo_world\<close>,
  \<^verbatim>\<open>GET /designs/\<close> is answered with 401 and the refresh call with 401 too: the caller
  is rejected with the original 401, the request is not sent again, \<^verbatim>\<open>access_token\<close>
  and \<^verbatim>\<open>refresh_token\<close> are deleted, but \<^verbatim>\<open>current_user\<close> is still in the secure
  store. The other refresh path of the program, \<^verbatim>\<open>refreshAccessToken\<close> (useAuth.ts,
  lines 248 to 251), calls \<^verbatim>\<open>clearAuthTokens\<close> on a failure, which deletes
  \<^verbatim>\<open>current_user\<close> as well.
\<close>

theorem refresh_failure_keeps_session:
  "fst (api_request (demo_backend ''R0'' ''A2'' (JObj [])) demo_world (get_config ''/designs/''))
     = Inl (AxiosError
         ((get_config ''/designs/'')\<lparr>c_Authorization := Some ''Bearer A1'', c_retry := True\<rparr>)
         (Some \<lparr>r_status = 401, r_data = JObj [(''detail'', JStr ''Not authenticated'')]\<rparr>))
   \<and> sent (demo_backend ''R0'' ''A2'' (JObj [])) demo_world (get_config ''/designs/'')
     = [\<lparr>w_baseURL = API_BASE_URL, w_method = GET, w_url = ''/designs/'',
         w_Authorization = Some ''Bearer A1'', w_data = JUndefined\<rparr>,
        \<lparr>w_baseURL = [], w_method = POST, w_url = API_BASE_URL @ ''/auth/token/refresh/'',
         w_Authorization = None, w_data = JObj [(''refresh'', JStr ''R1'')]\<rparr>]
   \<and> demo_backend ''R0'' ''A2'' (JObj [])
        [\<lparr>w_baseURL = API_BASE_URL, w_method = GET, w_url = ''/designs/'',
          w_Authorization = Some ''Bearer A1'', w_data = JUndefined\<rparr>]
        \<lparr>w_baseURL = [], w_method = POST, w_url = API_BASE_URL @ ''/auth/token/refresh/'',
         w_Authorization = None, w_data = JObj [(''refresh'', JStr ''R1'')]\<rparr>
     = Response \<lparr>r_status = 401, r_data = JObj [(''detail'', JStr ''Token is invalid'')]\<rparr>
   \<and> SecureStore (snd (api_request (demo_backend ''R0'' ''A2'' (JObj [])) demo_world
          (get_config ''/designs/''))) ''access_token'' = None
   \<and> SecureStore (snd (api_request (demo_backend ''R0'' ''A2'' (JObj [])) demo_world
          (get_config ''/designs/''))) ''refresh_token'' = None
   \<and> SecureStore (snd (api_request (demo_backend ''R0'' ''A2'' (JObj [])) demo_world
          (get_config ''/designs/''))) ''current_user'' = Some ''{}''"
  by code_simp

text \<open>
  C4, what the \<^verbatim>\<open>catch\<close> block of the response interceptor does for every request and
  backend: when the refresh call is rejected, exactly \<^verbatim>\<open>access_token\<close> and
  \<^verbatim>\<open>refresh_token\<close> are deleted, the caller is rejected with the original 401 error, and
  the request is not sent again.
\<close>

theorem refresh_failure_clears_tokens:
  fixes be :: backend
  defines "w1 \<equiv> \<lambda>st config. wire_of API_BASE_URL (request_interceptor st config)"
  assumes "\<not> c_retry config"
    and "\<not> js_includes (c_url config) ''/auth/token/''"
    and "be (wire_log st) (w1 st config) = Response r1"
    and "r_status r1 = 401"
    and "SecureStore st ''refresh_token'' = Some rt"
    and "rt \<noteq> []"
    and "settle (refresh_config rt)
           (be (wire_log st @ [w1 st config]) (wire_of [] (refresh_config rt))) = Inl e"
  shows "api_request be st config =
     (Inl (AxiosError ((request_interceptor st config)\<lparr>c_retry := True\<rparr>) (Some r1)),
      st\<lparr>SecureStore := (SecureStore st)(''access_token'' := None, ''refresh_token'' := None),
         wire_log := wire_log st @ [w1 st config, wire_of [] (refresh_config rt)]\<rparr>)"
proof -
  let ?c1 = "request_interceptor st config"
  let ?st1 = "st\<lparr>wire_log := wire_log st @ [w1 st config]\<rparr>"
  let ?st2 = "?st1\<lparr>wire_log := wire_log ?st1 @ [wire_of [] (refresh_config rt)]\<rparr>"
  have t1: "transmit be API_BASE_URL ?c1 st = (Inl (AxiosError ?c1 (Some r1)), ?st1)"
    using assms(4,5) by (simp add: transmit_def settle_def w1_def)
  have rb: "refresh_block be (?c1\<lparr>c_retry := True\<rparr>) ?st1 = (Inl e, ?st2)"
    using assms(6,7,8) by (intro refresh_block_rejected) simp_all
  have rr: "response_rejected be (AxiosError ?c1 (Some r1)) ?st1
      = (Reject (AxiosError (?c1\<lparr>c_retry := True\<rparr>) (Some r1)),
         deleteItemAsync ''refresh_token'' (deleteItemAsync ''access_token'' ?st2))"
    using assms(2,3,5) by (simp add: response_rejected_def is_401_def interceptor_keeps rb)
  have "api_request be st config
      = (Inl (AxiosError (?c1\<lparr>c_retry := True\<rparr>) (Some r1)),
         deleteItemAsync ''refresh_token'' (deleteItemAsync ''access_token'' ?st2))"
    by (subst api_request.simps) (simp only: t1 rr prod.case sum.case decision.case)
  then show ?thesis
    by (simp add: deleteItemAsync_def)
qed

theorem refresh_failure_clears_tokens_witness:
  "\<not> c_retry (get_config ''/designs/'')
   \<and> \<not> js_includes (c_url (get_config ''/designs/'')) ''/auth/token/''
   \<and> SecureStore demo_world ''refresh_token'' = Some ''R1''
   \<and> api_request (demo_backend ''R0'' ''A2'' (JObj [])) demo_world (get_config ''/designs/'')
     = (Inl (AxiosError
         ((request_interceptor demo_world (get_config ''/designs/''))\<lparr>c_retry := True\<rparr>)
         (Some \<lparr>r_status = 401, r_data = JObj [(''detail'', JStr ''Not authenticated'')]\<rparr>)),
        demo_world\<lparr>SecureStore :=
            (SecureStore demo_world)(''access_token'' := None, ''refresh_token'' := None),
          wire_log := wire_log demo_world @
            [wire_of API_BASE_URL (request_interceptor demo_world (get_config ''/designs/'')),
             wire_of [] (refresh_config ''R1'')]\<rparr>)"
proof -
  let ?be = "demo_backend ''R0'' ''A2'' (JObj [])"
  let ?c = "get_config ''/designs/''"
  let ?w1 = "wire_of API_BASE_URL (request_interceptor demo_world ?c)"
  let ?r1 = "\<lparr>r_status = 401, r_data = JObj [(''detail'', JStr ''Not authenticated'')]\<rparr>"
  let ?e = "AxiosError (refresh_config ''R1'')
      (Some \<lparr>r_status = 401, r_data = JObj [(''detail'', JStr ''Token is invalid'')]\<rparr>)"
  have h1: "\<not> c_retry ?c" by (simp add: get_config_def)
  have h2: "\<not> js_includes (c_url ?c) ''/auth/token/''" by (simp add: get_config_def)
  have h3: "?be (wire_log demo_world) ?w1 = Response ?r1" by code_simp
  have h4: "r_status ?r1 = 401" by simp
  have h5: "SecureStore demo_world ''refresh_token'' = Some ''R1''" by (simp add: demo_world_def)
  have h6: "''R1'' \<noteq> []" by simp
  have h7: "settle (refresh_config ''R1'')
      (?be (wire_log demo_world @ [?w1]) (wire_of [] (refresh_config ''R1''))) = Inl ?e"
    by code_simp
  note t = refresh_failure_clears_tokens[where be="?be" and st=demo_world and config="?c",
      OF h1 h2 h3 h4 h5 h6 h7]
  show ?thesis
    by (intro conjI h1 h2 h5 t)
qed

text \<open>
  C5. A request through \<^verbatim>\<open>api\<close> whose url does not contain \<^verbatim>\<open>/auth/\<close>, made while an
  access token (a non-empty string, which is what \<^verbatim>\<open>if (token)\<close> lets through) is
  stored, leaves the request interceptor with the header
  \<^verbatim>\<open>Authorization: Bearer <token>\<close> and nothing else changed, and that is the request
  put on the network first.
\<close>

theorem bearer_attached:
  assumes "\<not> js_includes (c_url config) ''/auth/''"
    and "SecureStore st ''access_token'' = Some token"
    and "token \<noteq> []"
  shows "request_interceptor st config = config\<lparr>c_Authorization := Some (''Bearer '' @ token)\<rparr>
     \<and> take 1 (sent be st config)
         = [(wire_of API_BASE_URL config)\<lparr>w_Authorization := Some (''Bearer '' @ token)\<rparr>]"
proof -
  have ri: "request_interceptor st config = config\<lparr>c_Authorization := Some (''Bearer '' @ token)\<rparr>"
    using assms by (simp add: request_interceptor_def)
  have "take 1 (sent be st config) = [wire_of API_BASE_URL (request_interceptor st config)]"
    by (rule sent_first)
  also have "\<dots> = [(wire_of API_BASE_URL config)\<lparr>w_Authorization := Some (''Bearer '' @ token)\<rparr>]"
    by (simp add: ri wire_of_def)
  finally show ?thesis using ri by simp
qed

theorem bearer_attached_witness:
  "\<not> js_includes (c_url (get_config ''/designs/'')) ''/auth/''
   \<and> SecureStore demo_world ''access_token'' = Some ''A1''
   \<and> request_interceptor demo_world (get_config ''/designs/'')
       = (get_config ''/designs/'')\<lparr>c_Authorization := Some ''Bearer A1''\<rparr>
   \<and> take 1 (sent (demo_backend ''R1'' ''A2'' (JObj [])) demo_world (get_config ''/designs/''))
       = [(wire_of API_BASE_URL (get_config ''/designs/''))\<lparr>w_Authorization := Some ''Bearer A1''\<rparr>]"
proof -
  have h1: "\<not> js_includes (c_url (get_config ''/designs/'')) ''/auth/''"
    by (simp add: get_config_def)
  have h2: "SecureStore demo_world ''access_token'' = Some ''A1''"
    by (simp add: demo_world_def)
  have h3: "''A1'' \<noteq> []" by simp
  from bearer_attached[OF h1 h2 h3, of "demo_backend ''R1'' ''A2'' (JObj [])"] h1 h2
  show ?thesis by simp
qed

section \<open>The claims about the session\<close>

text \<open>
  C6. After a login whose token call resolves with two string tokens and whose profile
  fetch resolves: when the profile's \<^verbatim>\<open>user_type\<close> is \<^verbatim>\<open>designer\<close>, login succeeds,
  the user it returns and stores under \<^verbatim>\<open>current_user\<close> has the role \<^verbatim>\<open>designer\<close>, the
  \<^verbatim>\<open>userRole\<close> flag is \<^verbatim>\<open>designer\<close> and the router is sent to the designer dashboard;
  when the \<^verbatim>\<open>user_type\<close> is the unrecognised \<^verbatim>\<open>admin\<close>, the role is \<^verbatim>\<open>client\<close> and the
  router is sent to the client home.
\<close>

theorem login_role_from_profile:
  assumes "fst (authService_login be st email password role) = Inr response"
    and "get_field response ''access'' = JStr a"
    and "get_field response ''refresh'' = JStr r"
    and "fst (api_request be
                (tokens_stored (snd (authService_login be st email password role)) a r)
                (get_config ''/auth/profile/'')) = Inr presp"
  shows "(get_field (r_data presp) ''user_type'' = JStr ''designer'' \<longrightarrow>
            (\<exists>u. fst (login be stringify st email password role)
                   = \<lparr>success = True, message = JStr ''Login successful'', user = Some u\<rparr>
                 \<and> u_role u = ''designer''
                 \<and> SecureStore (snd (login be stringify st email password role)) ''current_user''
                     = Some (stringify (user_object u))
                 \<and> AsyncStorage (snd (login be stringify st email password role)) ''current_user''
                     = Some (stringify (user_object u)))
          \<and> AsyncStorage (snd (login be stringify st email password role)) ''userRole''
              = Some ''designer''
          \<and> router (snd (login be stringify st email password role))
              = router st @ [''/(designer-tabs)/dashboard''])
     \<and> (get_field (r_data presp) ''user_type'' = JStr ''admin'' \<longrightarrow>
            (\<exists>u. fst (login be stringify st email password role)
                   = \<lparr>success = True, message = JStr ''Login successful'', user = Some u\<rparr>
                 \<and> u_role u = ''client''
                 \<and> SecureStore (snd (login be stringify st email password role)) ''current_user''
                     = Some (stringify (user_object u))
                 \<and> AsyncStorage (snd (login be stringify st email password role)) ''current_user''
                     = Some (stringify (user_object u)))
          \<and> AsyncStorage (snd (login be stringify st email password role)) ''userRole''
              = Some ''client''
          \<and> router (snd (login be stringify st email password role))
              = router st @ [''/(tabs)/home''])"
proof -
  let ?st3 = "tokens_stored (snd (authService_login be st email password role)) a r"
  obtain u st4 where f: "fetch_userData be ?st3 email role = (u, st4)"
    by (cases "fetch_userData be ?st3 email role") auto
  have r4: "router st4 = router st"
    using fetch_userData_router[of be st email password role a r email role] f by simp
  note fr = login_success_frame[OF assms(1-3) f, of stringify]
  have role_of: "u_role u = (case get_field (r_data presp) ''user_type'' of
          JStr s \<Rightarrow> if s = ''client'' \<or> s = ''designer'' then s else ''client''
        | _ \<Rightarrow> ''client'')"
    if "truthy (get_field (r_data presp) ''user_type'')"
    using fetch_userData_resolved[OF assms(4) that, of email role] f by simp
  show ?thesis
  proof (intro conjI impI)
    assume d: "get_field (r_data presp) ''user_type'' = JStr ''designer''"
    then have "u_role u = ''designer''" using role_of by simp
    then show "\<exists>u. fst (login be stringify st email password role)
                   = \<lparr>success = True, message = JStr ''Login successful'', user = Some u\<rparr>
                 \<and> u_role u = ''designer''
                 \<and> SecureStore (snd (login be stringify st email password role)) ''current_user''
                     = Some (stringify (user_object u))
                 \<and> AsyncStorage (snd (login be stringify st email password role)) ''current_user''
                     = Some (stringify (user_object u))"
      "AsyncStorage (snd (login be stringify st email password role)) ''userRole''
              = Some ''designer''"
      "router (snd (login be stringify st email password role))
              = router st @ [''/(designer-tabs)/dashboard'']"
      using fr r4 by simp_all
  next
    assume d: "get_field (r_data presp) ''user_type'' = JStr ''admin''"
    then have "u_role u = ''client''" using role_of by simp
    then show "\<exists>u. fst (login be stringify st email password role)
                   = \<lparr>success = True, message = JStr ''Login successful'', user = Some u\<rparr>
                 \<and> u_role u = ''client''
                 \<and> SecureStore (snd (login be stringify st email password role)) ''current_user''
                     = Some (stringify (user_object u))
                 \<and> AsyncStorage (snd (login be stringify st email password role)) ''current_user''
                     = Some (stringify (user_object u))"
      "AsyncStorage (snd (login be stringify st email password role)) ''userRole''
              = Some ''client''"
      "router (snd (login be stringify st email password role))
              = router st @ [''/(tabs)/home'']"
      using fr r4 by simp_all
  qed
qed

theorem login_role_from_profile_witness:
  "fst (api_request (demo_backend ''R1'' ''A2'' (JObj [(''user_type'', JStr ''designer'')]))
          (tokens_stored (snd (authService_login
              (demo_backend ''R1'' ''A2'' (JObj [(''user_type'', JStr ''designer'')])) fresh_world
              ''a@b.com'' ''pw'' ''designer'')) ''A1'' ''R1'')
          (get_config ''/auth/profile/''))
     = Inr \<lparr>r_status = 200, r_data = JObj [(''user_type'', JStr ''designer'')]\<rparr>
   \<and> AsyncStorage (snd (login (demo_backend ''R1'' ''A2'' (JObj [(''user_type'', JStr ''designer'')]))
          demo_stringify fresh_world ''a@b.com'' ''pw'' ''designer'')) ''userRole''
     = Some ''designer''
   \<and> router (snd (login (demo_backend ''R1'' ''A2'' (JObj [(''user_type'', JStr ''designer'')]))
          demo_stringify fresh_world ''a@b.com'' ''pw'' ''designer''))
     = [''/(designer-tabs)/dashboard'']
   \<and> fst (api_request (demo_backend ''R1'' ''A2'' (JObj [(''user_type'', JStr ''admin'')]))
          (tokens_stored (snd (authService_login
              (demo_backend ''R1'' ''A2'' (JObj [(''user_type'', JStr ''admin'')])) fresh_world
              ''a@b.com'' ''pw'' ''designer'')) ''A1'' ''R1'')
          (get_config ''/auth/profile/''))
     = Inr \<lparr>r_status = 200, r_data = JObj [(''user_type'', JStr ''admin'')]\<rparr>
   \<and> AsyncStorage (snd (login (demo_backend ''R1'' ''A2'' (JObj [(''user_type'', JStr ''admin'')]))
          demo_stringify fresh_world ''a@b.com'' ''pw'' ''designer'')) ''userRole''
     = Some ''client''
   \<and> router (snd (login (demo_backend ''R1'' ''A2'' (JObj [(''user_type'', JStr ''admin'')]))
          demo_stringify fresh_world ''a@b.com'' ''pw'' ''designer''))
     = [''/(tabs)/home'']"
proof -
  let ?bd = "demo_backend ''R1'' ''A2'' (JObj [(''user_type'', JStr ''designer'')])"
  let ?ba = "demo_backend ''R1'' ''A2'' (JObj [(''user_type'', JStr ''admin'')])"
  let ?resp = "JObj [(''access'', JStr ''A1''), (''refresh'', JStr ''R1'')]"
  let ?pd = "\<lparr>r_status = 200, r_data = JObj [(''user_type'', JStr ''designer'')]\<rparr>"
  let ?pa = "\<lparr>r_status = 200, r_data = JObj [(''user_type'', JStr ''admin'')]\<rparr>"
  have h2: "get_field ?resp ''access'' = JStr ''A1''" by simp
  have h3: "get_field ?resp ''refresh'' = JStr ''R1''" by simp
  have r0: "router fresh_world = []" by (simp add: fresh_world_def)
  have d1: "fst (authService_login ?bd fresh_world ''a@b.com'' ''pw'' ''designer'') = Inr ?resp"
    by code_simp
  have d4: "fst (api_request ?bd
          (tokens_stored (snd (authService_login ?bd fresh_world ''a@b.com'' ''pw'' ''designer''))
             ''A1'' ''R1'')
          (get_config ''/auth/profile/'')) = Inr ?pd"
    by code_simp
  have d5: "get_field (r_data ?pd) ''user_type'' = JStr ''designer''" by simp
  note td = login_role_from_profile[OF d1 h2 h3 d4, of demo_stringify, THEN conjunct1, THEN mp,
      OF d5, unfolded r0]
  have a1: "fst (authService_login ?ba fresh_world ''a@b.com'' ''pw'' ''designer'') = Inr ?resp"
    by code_simp
  have a4: "fst (api_request ?ba
          (tokens_stored (snd (authService_login ?ba fresh_world ''a@b.com'' ''pw'' ''designer''))
             ''A1'' ''R1'')
          (get_config ''/auth/profile/'')) = Inr ?pa"
    by code_simp
  have a5: "get_field (r_data ?pa) ''user_type'' = JStr ''admin''" by simp
  note ta = login_role_from_profile[OF a1 h2 h3 a4, of demo_stringify, THEN conjunct2, THEN mp,
      OF a5, unfolded r0]
  have c2: "AsyncStorage (snd (login ?bd demo_stringify fresh_world
      ''a@b.com'' ''pw'' ''designer'')) ''userRole'' = Some ''designer''"
    using td by blast
  have c3: "router (snd (login ?bd demo_stringify fresh_world ''a@b.com'' ''pw'' ''designer''))
     = [''/(designer-tabs)/dashboard'']"
    using td[THEN conjunct2, THEN conjunct2] by simp
  have c5: "AsyncStorage (snd (login ?ba demo_stringify fresh_world
      ''a@b.com'' ''pw'' ''designer'')) ''userRole'' = Some ''client''"
    using ta by blast
  have c6: "router (snd (login ?ba demo_stringify fresh_world ''a@b.com'' ''pw'' ''designer''))
     = [''/(tabs)/home'']"
    using ta[THEN conjunct2, THEN conjunct2] by simp
  show ?thesis
    by (intro conjI d4 c2 c3 a4 c5 c6)
qed

text \<open>
  C7, as the code has it. When the profile fetch resolves with an object that has a
  \<^verbatim>\<open>user_type\<close> field whose value is neither \<^verbatim>\<open>client\<close> nor \<^verbatim>\<open>designer\<close>: if that
  value is truthy (such as \<^verbatim>\<open>admin\<close>), the session role is \<^verbatim>\<open>client\<close>, whatever role
  the caller passed to \<^verbatim>\<open>login\<close>; if it is falsy (the empty string, \<^verbatim>\<open>null\<close>, 0,
  \<^verbatim>\<open>false\<close>), the session role is the role the caller passed, a \<^verbatim>\<open>UserRole\<close>, and
  \<^verbatim>\<open>client\<close> should the caller have passed anything else. The \<^verbatim>\<open>userRole\<close> flag, the
  stored user and the destination follow that role.
\<close>

theorem login_role_field_outside_roles:
  assumes "fst (authService_login be st email password role) = Inr response"
    and "get_field response ''access'' = JStr a"
    and "get_field response ''refresh'' = JStr r"
    and "fst (api_request be
                (tokens_stored (snd (authService_login be st email password role)) a r)
                (get_config ''/auth/profile/'')) = Inr presp"
    and "r_data presp = JObj kvs"
    and "map_of kvs ''user_type'' = Some ut"
    and "ut \<noteq> JStr ''client''"
    and "ut \<noteq> JStr ''designer''"
  shows "\<exists>u. fst (login be stringify st email password role)
             = \<lparr>success = True, message = JStr ''Login successful'', user = Some u\<rparr>
           \<and> u_role u
               = (if truthy ut then ''client''
                  else if role = ''client'' \<or> role = ''designer'' then role else ''client'')
           \<and> AsyncStorage (snd (login be stringify st email password role)) ''userRole''
               = Some (u_role u)
           \<and> SecureStore (snd (login be stringify st email password role)) ''current_user''
               = Some (stringify (user_object u))
           \<and> router (snd (login be stringify st email password role))
               = router st @ [if u_role u = ''designer'' then ''/(designer-tabs)/dashboard''
                              else ''/(tabs)/home'']"
proof -
  let ?st3 = "tokens_stored (snd (authService_login be st email password role)) a r"
  obtain u st4 where f: "fetch_userData be ?st3 email role = (u, st4)"
    by (cases "fetch_userData be ?st3 email role") auto
  have r4: "router st4 = router st"
    using fetch_userData_router[of be st email password role a r email role] f by simp
  note fr = login_success_frame[OF assms(1-3) f, of stringify]
  have g: "get_field (r_data presp) ''user_type'' = ut"
    using assms(5,6) by simp
  have "u_role u = (case js_or ut (JStr role) of
          JStr s \<Rightarrow> if s = ''client'' \<or> s = ''designer'' then s else ''client''
        | _ \<Rightarrow> ''client'')"
    using fetch_userData_role[OF assms(4,5), of email role] f g by simp
  with assms(7,8) have "u_role u
      = (if truthy ut then ''client''
         else if role = ''client'' \<or> role = ''designer'' then role else ''client'')"
    by (auto simp: js_or_def split: jsval.splits)
  with fr r4 show ?thesis by simp
qed

theorem login_role_field_outside_roles_witness:
  "fst (api_request (demo_backend ''R1'' ''A2'' (JObj [(''user_type'', JStr ''staff'')]))
          (tokens_stored (snd (authService_login
              (demo_backend ''R1'' ''A2'' (JObj [(''user_type'', JStr ''staff'')])) fresh_world
              ''c@d.org'' ''pw'' ''designer'')) ''A1'' ''R1'')
          (get_config ''/auth/profile/''))
     = Inr \<lparr>r_status = 200, r_data = JObj [(''user_type'', JStr ''staff'')]\<rparr>
   \<and> truthy (JStr ''staff'')
   \<and> AsyncStorage (snd (login (demo_backend ''R1'' ''A2'' (JObj [(''user_type'', JStr ''staff'')]))
          demo_stringify fresh_world ''c@d.org'' ''pw'' ''designer'')) ''userRole''
     = Some ''client''
   \<and> fst (api_request (demo_backend ''R1'' ''A2'' (JObj [(''user_type'', JStr [])]))
          (tokens_stored (snd (authService_login
              (demo_backend ''R1'' ''A2'' (JObj [(''user_type'', JStr [])])) fresh_world
              ''c@d.org'' ''pw'' ''designer'')) ''A1'' ''R1'')
          (get_config ''/auth/profile/''))
     = Inr \<lparr>r_status = 200, r_data = JObj [(''user_type'', JStr [])]\<rparr>
   \<and> \<not> truthy (JStr [])
   \<and> AsyncStorage (snd (login (demo_backend ''R1'' ''A2'' (JObj [(''user_type'', JStr [])]))
          demo_stringify fresh_world ''c@d.org'' ''pw'' ''designer'')) ''userRole''
     = Some ''designer''
   \<and> router (snd (login (demo_backend ''R1'' ''A2'' (JObj [(''user_type'', JStr [])]))
          demo_stringify fresh_world ''c@d.org'' ''pw'' ''designer''))
     = [''/(designer-tabs)/dashboard'']"
proof -
  let ?bs = "demo_backend ''R1'' ''A2'' (JObj [(''user_type'', JStr ''staff'')])"
  let ?be = "demo_backend ''R1'' ''A2'' (JObj [(''user_type'', JStr [])])"
  let ?resp = "JObj [(''access'', JStr ''A1''), (''refresh'', JStr ''R1'')]"
  let ?ps = "\<lparr>r_status = 200, r_data = JObj [(''user_type'', JStr ''staff'')]\<rparr>"
  let ?pe = "\<lparr>r_status = 200, r_data = JObj [(''user_type'', JStr [])]\<rparr>"
  have h2: "get_field ?resp ''access'' = JStr ''A1''" by simp
  have h3: "get_field ?resp ''refresh'' = JStr ''R1''" by simp
  have r0: "router fresh_world = []" by (simp add: fresh_world_def)
  have s1: "fst (authService_login ?bs fresh_world ''c@d.org'' ''pw'' ''designer'') = Inr ?resp"
    by code_simp
  have s4: "fst (api_request ?bs
          (tokens_stored (snd (authService_login ?bs fresh_world ''c@d.org'' ''pw'' ''designer''))
             ''A1'' ''R1'')
          (get_config ''/auth/profile/'')) = Inr ?ps"
    by code_simp
  have s5: "r_data ?ps = JObj [(''user_type'', JStr ''staff'')]" by simp
  have s6: "map_of [(''user_type'', JStr ''staff'')] ''user_type'' = Some (JStr ''staff'')"
    by simp
  have s7: "JStr ''staff'' \<noteq> JStr ''client''" "JStr ''staff'' \<noteq> JStr ''designer''"
    by simp_all
  note ts = login_role_field_outside_roles[OF s1 h2 h3 s4 s5 s6 s7, of demo_stringify]
  have e1: "fst (authService_login ?be fresh_world ''c@d.org'' ''pw'' ''designer'') = Inr ?resp"
    by code_simp
  have e4: "fst (api_request ?be
          (tokens_stored (snd (authService_login ?be fresh_world ''c@d.org'' ''pw'' ''designer''))
             ''A1'' ''R1'')
          (get_config ''/auth/profile/'')) = Inr ?pe"
    by code_simp
  have e5: "r_data ?pe = JObj [(''user_type'', JStr [])]" by simp
  have e6: "map_of [(''user_type'', JStr [])] ''user_type'' = Some (JStr [])"
    by simp
  have e7: "JStr [] \<noteq> JStr ''client''" "JStr [] \<noteq> JStr ''designer''"
    by simp_all
  note te = login_role_field_outside_roles[OF e1 h2 h3 e4 e5 e6 e7, of demo_stringify,
      unfolded r0]
  have c2: "truthy (JStr ''staff'')" by simp
  have c3: "AsyncStorage (snd (login ?bs demo_stringify fresh_world
      ''c@d.org'' ''pw'' ''designer'')) ''userRole'' = Some ''client''"
    using ts by (elim exE conjE) simp
  have c5: "\<not> truthy (JStr [])" by simp
  have c6: "AsyncStorage (snd (login ?be demo_stringify fresh_world
      ''c@d.org'' ''pw'' ''designer'')) ''userRole'' = Some ''designer''"
    using te by (elim exE conjE) simp
  have c7: "router (snd (login ?be demo_stringify fresh_world ''c@d.org'' ''pw'' ''designer''))
     = [''/(designer-tabs)/dashboard'']"
    using te by (elim exE conjE) simp
  show ?thesis
    by (intro conjI s4 c2 c3 e4 c5 c6 c7)
qed

text \<open>
  C7 as stated fails: \<^verbatim>\<open>login('a@b.com', 'pw', 'designer')\<close> against a profile whose
  \<^verbatim>\<open>user_type\<close> is \<^verbatim>\<open>admin\<close> gives the session role \<^verbatim>\<open>client\<close>, not the caller's
  \<^verbatim>\<open>designer\<close>.
\<close>

theorem login_admin_profile_overrides_caller_role:
  "fst (api_request (demo_backend ''R1'' ''A2'' (JObj [(''user_type'', JStr ''admin'')]))
          (tokens_stored (snd (authService_login
              (demo_backend ''R1'' ''A2'' (JObj [(''user_type'', JStr ''admin'')])) fresh_world
              ''a@b.com'' ''pw'' ''designer'')) ''A1'' ''R1'')
          (get_config ''/auth/profile/''))
     = Inr \<lparr>r_status = 200, r_data = JObj [(''user_type'', JStr ''admin'')]\<rparr>
   \<and> map_option u_role (user (fst (login
          (demo_backend ''R1'' ''A2'' (JObj [(''user_type'', JStr ''admin'')]))
          demo_stringify fresh_world ''a@b.com'' ''pw'' ''designer''))) = Some ''client''
   \<and> AsyncStorage (snd (login (demo_backend ''R1'' ''A2'' (JObj [(''user_type'', JStr ''admin'')]))
          demo_stringify fresh_world ''a@b.com'' ''pw'' ''designer'')) ''userRole''
     = Some ''client''
   \<and> SecureStore (snd (login (demo_backend ''R1'' ''A2'' (JObj [(''user_type'', JStr ''admin'')]))
          demo_stringify fresh_world ''a@b.com'' ''pw'' ''designer'')) ''current_user''
     = Some ''{role:client}''
   \<and> ''client'' \<noteq> ''designer''"
  by code_simp

text \<open>
  C8, as the code has it. Whatever the outcome of \<^verbatim>\<open>authService.logout()\<close>, resolved or
  rejected, and whatever store calls it made: when the four store calls of the
  \<^verbatim>\<open>finally\<close> block go through, \<^verbatim>\<open>logout\<close> resolves, \<^verbatim>\<open>access_token\<close>,
  \<^verbatim>\<open>refresh_token\<close> and \<^verbatim>\<open>current_user\<close> are gone from the secure store and
  \<^verbatim>\<open>userRole\<close>, \<^verbatim>\<open>isLoggedIn\<close> and \<^verbatim>\<open>current_user\<close> from \<open>AsyncStorage\<close>, and
  \<^verbatim>\<open>router.replace('/login')\<close> is the last thing done. So it is for \<^verbatim>\<open>logout\<close> as a
  whole, which sends nothing.
\<close>

theorem logout_clears_when_cleanup_succeeds:
  "(cleanup_succeeds fl calls \<longrightarrow>
      fst (logout_after fl (outcome, calls, st1)) = Inr ()
      \<and> SecureStore (snd (logout_after fl (outcome, calls, st1))) ''access_token'' = None
      \<and> SecureStore (snd (logout_after fl (outcome, calls, st1))) ''refresh_token'' = None
      \<and> SecureStore (snd (logout_after fl (outcome, calls, st1))) ''current_user'' = None
      \<and> AsyncStorage (snd (logout_after fl (outcome, calls, st1))) ''userRole'' = None
      \<and> AsyncStorage (snd (logout_after fl (outcome, calls, st1))) ''isLoggedIn'' = None
      \<and> AsyncStorage (snd (logout_after fl (outcome, calls, st1))) ''current_user'' = None
      \<and> router (snd (logout_after fl (outcome, calls, st1))) = router st1 @ [''/login''])
   \<and> (cleanup_succeeds fl (fst (snd (authService_logout fl ([], st)))) \<longrightarrow>
      fst (logout fl st) = Inr ()
      \<and> SecureStore (snd (logout fl st)) ''access_token'' = None
      \<and> SecureStore (snd (logout fl st)) ''refresh_token'' = None
      \<and> SecureStore (snd (logout fl st)) ''current_user'' = None
      \<and> AsyncStorage (snd (logout fl st)) ''userRole'' = None
      \<and> AsyncStorage (snd (logout fl st)) ''isLoggedIn'' = None
      \<and> AsyncStorage (snd (logout fl st)) ''current_user'' = None
      \<and> router (snd (logout fl st)) = router st @ [''/login'']
      \<and> wire_log (snd (logout fl st)) = wire_log st)"
proof (intro conjI impI)
  assume ok: "cleanup_succeeds fl calls"
  have a: "logout_after fl (outcome, calls, st1) = logout_finally fl (calls, st1)"
    by (cases outcome) (simp_all add: logout_after_def)
  show "fst (logout_after fl (outcome, calls, st1)) = Inr ()"
    "SecureStore (snd (logout_after fl (outcome, calls, st1))) ''access_token'' = None"
    "SecureStore (snd (logout_after fl (outcome, calls, st1))) ''refresh_token'' = None"
    "SecureStore (snd (logout_after fl (outcome, calls, st1))) ''current_user'' = None"
    "AsyncStorage (snd (logout_after fl (outcome, calls, st1))) ''userRole'' = None"
    "AsyncStorage (snd (logout_after fl (outcome, calls, st1))) ''isLoggedIn'' = None"
    "AsyncStorage (snd (logout_after fl (outcome, calls, st1))) ''current_user'' = None"
    "router (snd (logout_after fl (outcome, calls, st1))) = router st1 @ [''/login'']"
    unfolding a logout_finally_ok[OF ok] by simp_all
next
  assume ok: "cleanup_succeeds fl (fst (snd (authService_logout fl ([], st))))"
  obtain outcome calls st1 where al: "authService_logout fl ([], st) = (outcome, calls, st1)"
    by (cases "authService_logout fl ([], st)") auto
  have a: "logout fl st = logout_finally fl (calls, st1)"
    unfolding logout_def al by (cases outcome) (simp_all add: logout_after_def)
  have ok': "cleanup_succeeds fl calls" using ok by (simp add: al)
  have w: "wire_log st1 = wire_log st" "router st1 = router st"
    using authService_logout_world(1,2)[of fl "[]" st] by (simp_all add: al)
  show "fst (logout fl st) = Inr ()"
    "SecureStore (snd (logout fl st)) ''access_token'' = None"
    "SecureStore (snd (logout fl st)) ''refresh_token'' = None"
    "SecureStore (snd (logout fl st)) ''current_user'' = None"
    "AsyncStorage (snd (logout fl st)) ''userRole'' = None"
    "AsyncStorage (snd (logout fl st)) ''isLoggedIn'' = None"
    "AsyncStorage (snd (logout fl st)) ''current_user'' = None"
    "router (snd (logout fl st)) = router st @ [''/login'']"
    "wire_log (snd (logout fl st)) = wire_log st"
    unfolding a logout_finally_ok[OF ok'] by (simp_all add: w)
qed

theorem logout_clears_when_cleanup_succeeds_witness:
  "cleanup_succeeds no_faults [Delete ''access_token'', Delete ''refresh_token'']
   \<and> fst (logout_after no_faults
            (Inr (), [Delete ''access_token'', Delete ''refresh_token''], demo_world)) = Inr ()
   \<and> router (snd (logout_after no_faults
            (Inr (), [Delete ''access_token'', Delete ''refresh_token''], demo_world)))
       = [''/login'']
   \<and> authService_logout first_call_fails ([], demo_world)
       = (Inl StoreError, [Delete ''access_token''], demo_world)
   \<and> cleanup_succeeds first_call_fails [Delete ''access_token'']
   \<and> fst (logout first_call_fails demo_world) = Inr ()
   \<and> SecureStore (snd (logout first_call_fails demo_world)) ''access_token'' = None
   \<and> SecureStore (snd (logout first_call_fails demo_world)) ''refresh_token'' = None
   \<and> SecureStore (snd (logout first_call_fails demo_world)) ''current_user'' = None
   \<and> AsyncStorage (snd (logout first_call_fails demo_world)) ''userRole'' = None
   \<and> AsyncStorage (snd (logout first_call_fails demo_world)) ''isLoggedIn'' = None
   \<and> AsyncStorage (snd (logout first_call_fails demo_world)) ''current_user'' = None
   \<and> router (snd (logout first_call_fails demo_world)) = [''/login'']"
proof -
  let ?two = "[Delete ''access_token'', Delete ''refresh_token'']"
  have r0: "router demo_world = []" by (simp add: demo_world_def)
  have a1: "cleanup_succeeds no_faults ?two"
    by (simp add: cleanup_succeeds_def no_faults_def)
  note a = logout_clears_when_cleanup_succeeds[where fl=no_faults and calls="?two"
      and outcome="Inr ()" and ?st1.0=demo_world, THEN conjunct1, THEN mp, OF a1, unfolded r0]
  have al: "authService_logout first_call_fails ([], demo_world)
       = (Inl StoreError, [Delete ''access_token''], demo_world)"
    by (simp add: authService_logout_def deleteItemAsync_faulty_def first_call_fails_def)
  have b1: "cleanup_succeeds first_call_fails [Delete ''access_token'']"
    by (simp add: cleanup_succeeds_def first_call_fails_def)
  have b1': "cleanup_succeeds first_call_fails
      (fst (snd (authService_logout first_call_fails ([], demo_world))))"
    unfolding al using b1 by simp
  note b = logout_clears_when_cleanup_succeeds[where fl=first_call_fails and st=demo_world,
      THEN conjunct2, THEN mp, OF b1', unfolded r0]
  have a2: "fst (logout_after no_faults (Inr (), ?two, demo_world)) = Inr ()"
    using a by blast
  have a3: "router (snd (logout_after no_faults (Inr (), ?two, demo_world))) = [''/login'']"
    using a by simp
  have b2: "fst (logout first_call_fails demo_world) = Inr ()"
    and b3: "SecureStore (snd (logout first_call_fails demo_world)) ''access_token'' = None"
    and b4: "SecureStore (snd (logout first_call_fails demo_world)) ''refresh_token'' = None"
    and b5: "SecureStore (snd (logout first_call_fails demo_world)) ''current_user'' = None"
    and b6: "AsyncStorage (snd (logout first_call_fails demo_world)) ''userRole'' = None"
    and b7: "AsyncStorage (snd (logout first_call_fails demo_world)) ''isLoggedIn'' = None"
    and b8: "AsyncStorage (snd (logout first_call_fails demo_world)) ''current_user'' = None"
    using b by blast+
  have b9: "router (snd (logout first_call_fails demo_world)) = [''/login'']"
    using b by simp
  show ?thesis
    by (intro conjI a1 a2 a3 al b1 b2 b3 b4 b5 b6 b7 b8 b9)
qed

text \<open>
  C8 as stated fails on a device whose secure store refuses to delete
  \<^verbatim>\<open>access_token\<close>: \<^verbatim>\<open>authService.logout()\<close> is rejected, which \<^verbatim>\<open>logout\<close> ignores, and
  then \<^verbatim>\<open>clearAuthTokens()\<close> is rejected by the same refusal; \<^verbatim>\<open>logout\<close> is rejected
  with nothing cleared and no navigation.
\<close>

theorem logout_aborts_when_delete_rejects:
  "fst (authService_logout access_delete_fails ([], demo_world)) = Inl StoreError
   \<and> fst (logout access_delete_fails demo_world) = Inl StoreError
   \<and> SecureStore (snd (logout access_delete_fails demo_world)) ''access_token'' = Some ''A1''
   \<and> SecureStore (snd (logout access_delete_fails demo_world)) ''refresh_token'' = Some ''R1''
   \<and> SecureStore (snd (logout access_delete_fails demo_world)) ''current_user'' = Some ''{}''
   \<and> AsyncStorage (snd (logout access_delete_fails demo_world)) ''userRole'' = Some ''client''
   \<and> AsyncStorage (snd (logout access_delete_fails demo_world)) ''isLoggedIn'' = Some ''true''
   \<and> router (snd (logout access_delete_fails demo_world)) = []"
  by code_simp



text \<open>
  C10. When the token call of \<^verbatim>\<open>login\<close> is rejected, login returns
  \<^verbatim>\<open>success: false\<close> with the message that the \<^verbatim>\<open>catch\<close> block derives from the
  error, and writes nothing: the secure store, \<open>AsyncStorage\<close> and the router are as
  they were, and the one request of the token call is all that was sent.
\<close>

theorem login_auth_failure_writes_nothing:
  assumes "fst (authService_login be st email password role) = Inl err"
  shows "fst (login be stringify st email password role)
       = \<lparr>success = False, message = login_message stringify err, user = None\<rparr>
     \<and> SecureStore (snd (login be stringify st email password role)) = SecureStore st
     \<and> AsyncStorage (snd (login be stringify st email password role)) = AsyncStorage st
     \<and> router (snd (login be stringify st email password role)) = router st
     \<and> wire_log (snd (login be stringify st email password role))
         = wire_log st @ [wire_of API_BASE_URL (login_config email password role)]"
  unfolding login_failed_path[OF assms] by (simp add: login_failed_def)

theorem login_auth_failure_writes_nothing_witness:
  "fst (authService_login (demo_backend ''R1'' ''A2'' (JObj [])) demo_world
          ''a@b.com'' ''wrong'' ''designer'')
     = Inl (AxiosError (login_config ''a@b.com'' ''wrong'' ''designer'')
         (Some \<lparr>r_status = 401, r_data = JObj [(''detail'', JStr ''No active account'')]\<rparr>))
   \<and> fst (login (demo_backend ''R1'' ''A2'' (JObj [])) demo_stringify demo_world
          ''a@b.com'' ''wrong'' ''designer'')
     = \<lparr>success = False, message = JStr ''No active account'', user = None\<rparr>
   \<and> SecureStore (snd (login (demo_backend ''R1'' ''A2'' (JObj [])) demo_stringify demo_world
          ''a@b.com'' ''wrong'' ''designer'')) = SecureStore demo_world
   \<and> AsyncStorage (snd (login (demo_backend ''R1'' ''A2'' (JObj [])) demo_stringify demo_world
          ''a@b.com'' ''wrong'' ''designer'')) = AsyncStorage demo_world
   \<and> router (snd (login (demo_backend ''R1'' ''A2'' (JObj [])) demo_stringify demo_world
          ''a@b.com'' ''wrong'' ''designer'')) = router demo_world"
proof -
  let ?be = "demo_backend ''R1'' ''A2'' (JObj [])"
  let ?err = "AxiosError (login_config ''a@b.com'' ''wrong'' ''designer'')
         (Some \<lparr>r_status = 401, r_data = JObj [(''detail'', JStr ''No active account'')]\<rparr>)"
  have h: "fst (authService_login ?be demo_world ''a@b.com'' ''wrong'' ''designer'') = Inl ?err"
    by code_simp
  have m: "login_message demo_stringify ?err = JStr ''No active account''"
    by (simp add: login_message_def js_or_def)
  note t = login_auth_failure_writes_nothing[OF h, of demo_stringify, unfolded m]
  show ?thesis
    by (intro conjI h t[THEN conjunct1] t[THEN conjunct2, THEN conjunct1]
        t[THEN conjunct2, THEN conjunct2, THEN conjunct1]
        t[THEN conjunct2, THEN conjunct2, THEN conjunct2, THEN conjunct1])
qed

end
